theory Spec2Isabelle
  imports Complex_Main
begin

section \<open>Data model\<close>

text \<open>
  The controllers of the video-sharing backend (\<^verbatim>\<open>video.controller.js\<close>,
  \<^verbatim>\<open>playlist.controller.js\<close> and the dashboard controller) are embedded as
  functions on an explicit database state. Identifiers are ObjectIds; a stored one is
  kept in its canonical string form, the form \<^verbatim>\<open>toString()\<close> yields. An
  identifier of a request that the source uses only through a cast
  (\<^verbatim>\<open>new ObjectId(id)\<close>, \<^verbatim>\<open>findById(id)\<close>) stands for the ObjectId it
  denotes. The video identifier of addVideoToPlaylist and removeVideoFromPlaylist is
  compared as the string the request spelled, so there it is that string.
\<close>

type_synonym objectId = string

text \<open>
  A thrown \<^verbatim>\<open>ApiError(status, message)\<close>, or any other exception that reaches
  the \<^verbatim>\<open>asyncHandler\<close> wrapper (a driver error of the database, a TypeError).
\<close>

datatype error = ApiError nat string | Thrown string

text \<open>The arguments of \<^verbatim>\<open>new ApiResponse(statusCode, data, message)\<close>.\<close>

record 'a ApiResponse =
  statusCode :: nat
  data :: 'a
  message :: string

text \<open>
  Modelled from the spec: the Mongoose schemas (\<^verbatim>\<open>models/*.model.js\<close>) are not
  among the sources. The records carry the attributes the spec's data model lists and the
  controllers read or write; \<open>createdAt\<close> is the timestamp the default sort refers to.
  A playlist's name and description are optional, since createPlaylist hands the fields
  of the request body to the database as they came, absent ones included.
\<close>

record user =
  u_id :: objectId
  username :: string
  email :: string
  fullName :: string
  avatar :: string
  coverImage :: string
  password :: string
  refreshToken :: string
  watchHistory :: "objectId list"

record video =
  v_id :: objectId
  videoFile :: string
  thumbnail :: string
  title :: string
  description :: string
  duration :: int
  views :: int
  isPublished :: bool
  v_owner :: objectId
  createdAt :: int

record playlist =
  p_id :: objectId
  name :: "string option"
  p_description :: "string option"
  p_owner :: objectId
  videos :: "objectId list"

record subscription =
  subscriber :: objectId
  channel :: objectId

text \<open>A like targets a video, a comment or a tweet; only the video reference is read here.\<close>

record like =
  likedBy :: objectId
  l_video :: "objectId option"

record db =
  Users :: "user list"
  Videos :: "video list"
  Playlists :: "playlist list"
  Subscriptions :: "subscription list"
  Likes :: "like list"

subsection \<open>Storage primitives\<close>

text \<open>\<^verbatim>\<open>Video.findById(id)\<close>: the document with that identifier, or null.\<close>

definition findVideoById :: "video list \<Rightarrow> objectId \<Rightarrow> video option" where
  "findVideoById vs i = find (\<lambda>v. v_id v = i) vs"

definition findPlaylistById :: "playlist list \<Rightarrow> objectId \<Rightarrow> playlist option" where
  "findPlaylistById ps i = find (\<lambda>p. p_id p = i) ps"

text \<open>
  Writing one document back (\<^verbatim>\<open>doc.save()\<close>, \<^verbatim>\<open>findByIdAndUpdate\<close>) and
  removing one (\<^verbatim>\<open>findByIdAndDelete\<close>): the first document with the identifier is
  affected, the collection keeps its order.
\<close>

fun updateVideoById :: "objectId \<Rightarrow> (video \<Rightarrow> video) \<Rightarrow> video list \<Rightarrow> video list" where
  "updateVideoById i f [] = []"
| "updateVideoById i f (v # vs) =
     (if v_id v = i then f v # vs else v # updateVideoById i f vs)"

fun deleteVideoById :: "objectId \<Rightarrow> video list \<Rightarrow> video list" where
  "deleteVideoById i [] = []"
| "deleteVideoById i (v # vs) = (if v_id v = i then vs else v # deleteVideoById i vs)"

fun updatePlaylistById ::
  "objectId \<Rightarrow> (playlist \<Rightarrow> playlist) \<Rightarrow> playlist list \<Rightarrow> playlist list" where
  "updatePlaylistById i f [] = []"
| "updatePlaylistById i f (p # ps) =
     (if p_id p = i then f p # ps else p # updatePlaylistById i f ps)"

fun deletePlaylistById :: "objectId \<Rightarrow> playlist list \<Rightarrow> playlist list" where
  "deletePlaylistById i [] = []"
| "deletePlaylistById i (p # ps) = (if p_id p = i then ps else p # deletePlaylistById i ps)"

subsection \<open>Documents and external collaborators\<close>

text \<open>
  The result of \<^verbatim>\<open>uploadOnCloudinary(path, folder)\<close>: the uploaded asset
  (\<open>secure_url\<close>, \<open>duration\<close>), null, or an exception with its message.
\<close>

datatype upload = Uploaded string int | UploadNull | UploadThrows string

text \<open>
  The documents an aggregation returns. A user document reaches a response only through
  \<^verbatim>\<open>$lookup\<close> and \<^verbatim>\<open>$project\<close>, so it is a list of named fields there.
\<close>

datatype bson = String string | ObjectId objectId | Array "bson list"

type_synonym doc = "(string \<times> bson) list"

text \<open>
  A video of the feed: the video's own fields, and \<open>owner\<close> replaced by the first
  looked-up user document (\<open>None\<close> when the lookup found no user:
  \<^verbatim>\<open>$first\<close> of an empty array is missing).
\<close>

record videoWithOwner =
  video_doc :: video
  owner :: "doc option"

text \<open>The names of the fields of an item's owner sub-object; none when it has no such object.\<close>

definition ownerFields :: "videoWithOwner \<Rightarrow> string list" where
  "ownerFields item = (case owner item of None \<Rightarrow> [] | Some x \<Rightarrow> map fst x)"

text \<open>A video of the channel listing: the video's fields and \<open>likesCount\<close>.\<close>

record videoWithLikes =
  video_of :: video
  likesCount :: int

text \<open>
  What the controllers call but do not define is a parameter of the model:
  \<^item> \<open>isValidObjectId\<close>: Mongoose's well-formedness test of an identifier;
  \<^item> \<open>castObjectId\<close>: the cast of a well-formed identifier to an ObjectId, given by
    the canonical string of that ObjectId;
  \<^item> \<open>regex\<close>: the database's case-insensitive regular-expression match for a pattern,
    \<open>None\<close> when the database rejects the pattern;
  \<^item> \<open>orderFeed\<close>, \<open>orderChannel\<close>: the database's ascending order of two
    documents on a sort key, \<open>None\<close> when it rejects the key;
  \<^item> \<open>validatePlaylist\<close>: the validation the Playlist schema runs on create;
  \<^item> \<open>uploadOnCloudinary\<close>: the media upload.
\<close>

record env =
  isValidObjectId :: "string \<Rightarrow> bool"
  castObjectId :: "string \<Rightarrow> objectId"
  regex :: "string \<Rightarrow> (string \<Rightarrow> bool) option"
  orderFeed :: "string \<Rightarrow> (videoWithOwner \<Rightarrow> videoWithOwner \<Rightarrow> bool) option"
  orderChannel :: "string \<Rightarrow> (videoWithLikes \<Rightarrow> videoWithLikes \<Rightarrow> bool) option"
  validatePlaylist :: "playlist \<Rightarrow> bool"
  uploadOnCloudinary :: "string \<Rightarrow> string \<Rightarrow> upload"

section \<open>JavaScript primitives\<close>

text \<open>A string that may be \<^verbatim>\<open>undefined\<close> is truthy when present and not empty.\<close>

definition truthy :: "string option \<Rightarrow> bool" where
  "truthy x = (case x of None \<Rightarrow> False | Some s \<Rightarrow> s \<noteq> [])"

text \<open>
  A character of a \<open>string\<close> is one code unit of the JavaScript string, so the strings
  of the model are those over the code units below 256. The white space among these is
  tab, line feed, vertical tab, form feed, carriage return, space and the no-break space
  (160); \<^verbatim>\<open>String.prototype.trim\<close> and \<^verbatim>\<open>parseInt\<close> strip exactly these.
\<close>

definition isWhiteSpace :: "char \<Rightarrow> bool" where
  "isWhiteSpace c = (of_char c \<in> {9, 10, 11, 12, 13, 32, 160 :: nat})"

definition trim :: "string \<Rightarrow> string" where
  "trim s = rev (dropWhile isWhiteSpace (rev (dropWhile isWhiteSpace s)))"

subsection \<open>Numbers\<close>

text \<open>
  The values of type Number that the handlers compute with: NaN, the two infinities, and
  the doubles whose value is an integer. Every double from \<open>2^53\<close> on is an integer, and
  sums, differences and products of integers are integers, so the arithmetic of the
  handlers on page and limit stays in this type. The two zeros are one value.
\<close>

datatype number = NaN | PosInfinity | NegInfinity | Num int

text \<open>The number of binary digits of a positive integer.\<close>

function bitLength :: "int \<Rightarrow> nat" where
  "bitLength n = (if n \<le> 0 then 0 else Suc (bitLength (n div 2)))"
  by pat_completeness auto
termination
  by (relation "measure nat") auto

declare bitLength.simps [simp del]

text \<open>
  Rounding a non-negative integer to the nearest double, ties to the even significand:
  below \<open>2^53\<close> every integer is a double; above, the digits beyond the leading 53 are
  rounded away. The result may reach \<open>2^1024\<close>, which is no double.
\<close>

definition roundMagnitude :: "int \<Rightarrow> int" where
  "roundMagnitude m =
     (if m < 2 ^ 53 then m
      else
        (let e = bitLength m - 53;
             q = m div 2 ^ e;
             r = m mod 2 ^ e;
             half = 2 ^ (e - 1)
         in (if half < r \<or> (r = half \<and> odd q) then q + 1 else q) * 2 ^ e))"

text \<open>The Number for a mathematical integer: the rounded value, or an infinity on overflow.\<close>

definition toNumber :: "int \<Rightarrow> number" where
  "toNumber n =
     (let r = roundMagnitude \<bar>n\<bar>
      in if 2 ^ 1024 \<le> r then (if n < 0 then NegInfinity else PosInfinity)
         else Num (if n < 0 then - r else r))"

text \<open>\<^verbatim>\<open>x - 1\<close> and \<^verbatim>\<open>x * y\<close>: the exact result, rounded.\<close>

definition minusOne :: "number \<Rightarrow> number" where
  "minusOne x = (case x of Num n \<Rightarrow> toNumber (n - 1) | _ \<Rightarrow> x)"

definition signOf :: "number \<Rightarrow> int" where
  "signOf x = (case x of Num n \<Rightarrow> sgn n | PosInfinity \<Rightarrow> 1 | NegInfinity \<Rightarrow> - 1 | NaN \<Rightarrow> 0)"

definition multiply :: "number \<Rightarrow> number \<Rightarrow> number" where
  "multiply x y =
     (case (x, y) of
        (Num a, Num b) \<Rightarrow> toNumber (a * b)
      | (NaN, _) \<Rightarrow> NaN
      | (_, NaN) \<Rightarrow> NaN
      | _ \<Rightarrow> if signOf x * signOf y = 0 then NaN
             else if 0 < signOf x * signOf y then PosInfinity else NegInfinity)"

subsection \<open>parseInt\<close>

text \<open>
  \<^verbatim>\<open>parseInt(string)\<close> without a radix: leading white space, an optional sign, an
  optional \<^verbatim>\<open>0x\<close> prefix, then the longest run of digits, read as a mathematical
  integer and rounded to a Number; NaN when there is no digit.
\<close>

definition digitValue :: "nat \<Rightarrow> char \<Rightarrow> nat option" where
  "digitValue radix c =
     (let n = of_char c :: nat
      in if 48 \<le> n \<and> n \<le> 57 then Some (n - 48)
         else if radix = 16 \<and> 97 \<le> n \<and> n \<le> 102 then Some (n - 87)
         else if radix = 16 \<and> 65 \<le> n \<and> n \<le> 70 then Some (n - 55)
         else None)"

fun digitsValue :: "nat \<Rightarrow> int \<Rightarrow> string \<Rightarrow> int" where
  "digitsValue radix acc [] = acc"
| "digitsValue radix acc (c # cs) =
     (case digitValue radix c of
        None \<Rightarrow> acc
      | Some k \<Rightarrow> digitsValue radix (acc * int radix + int k) cs)"

definition stripSign :: "string \<Rightarrow> bool \<times> string" where
  "stripSign t =
     (case t of
        [] \<Rightarrow> (False, t)
      | c # r \<Rightarrow> if c = CHR ''-'' then (True, r)
                 else if c = CHR ''+'' then (False, r) else (False, t))"

definition stripRadix :: "string \<Rightarrow> nat \<times> string" where
  "stripRadix u =
     (case u of
        a # b # r \<Rightarrow>
          if a = CHR ''0'' \<and> (b = CHR ''x'' \<or> b = CHR ''X'') then (16, r) else (10, u)
      | _ \<Rightarrow> (10, u))"

definition parseInt :: "string \<Rightarrow> number" where
  "parseInt s =
     (let signed = stripSign (dropWhile isWhiteSpace s);
          based = stripRadix (snd signed);
          radix = fst based;
          w = snd based
      in case w of
           [] \<Rightarrow> NaN
         | c # _ \<Rightarrow>
             (case digitValue radix c of
                None \<Rightarrow> NaN
              | Some _ \<Rightarrow>
                  toNumber ((if fst signed then - 1 else 1) * digitsValue radix 0 w)))"

text \<open>
  A query parameter with a numeric default (\<^verbatim>\<open>page = 1\<close>, \<^verbatim>\<open>limit = 10\<close>):
  the default stands in when the parameter is absent, and \<^verbatim>\<open>parseInt\<close> of a
  small number is that number.
\<close>

definition parseIntOr :: "int \<Rightarrow> string option \<Rightarrow> number" where
  "parseIntOr dflt x = (case x of None \<Rightarrow> Num dflt | Some s \<Rightarrow> parseInt s)"

text \<open>
  \<^verbatim>\<open>Math.ceil(a / b)\<close> for a count \<open>a\<close> of documents and a positive \<open>b\<close>. The
  quotient of the doubles is rounded before the ceiling is taken; for a count below
  \<open>2^53\<close> the rounding never reaches the integer below, and the result is the exact
  ceiling.
\<close>

definition ceilDiv :: "int \<Rightarrow> int \<Rightarrow> int" where
  "ceilDiv a b = \<lceil>real_of_int a / real_of_int b\<rceil>"

text \<open>\<^verbatim>\<open>x?.field || 0\<close> on a number that may be undefined.\<close>

definition orZero :: "int option \<Rightarrow> int" where
  "orZero x = (case x of None \<Rightarrow> 0 | Some n \<Rightarrow> if n = 0 then 0 else n)"

section \<open>Aggregation stages\<close>

text \<open>
  The filter object of \<^verbatim>\<open>$match\<close> and \<^verbatim>\<open>countDocuments\<close>: each key is present
  or not. \<open>or_regex\<close> is the pattern matched against title or description.
\<close>

record matchConditions =
  or_regex :: "string option"
  owner_eq :: "objectId option"
  isPublished_eq :: "bool option"

definition satisfies :: "(string \<Rightarrow> bool) option \<Rightarrow> matchConditions \<Rightarrow> video \<Rightarrow> bool" where
  "satisfies r m v =
     ((case r of None \<Rightarrow> True | Some f \<Rightarrow> f (title v) \<or> f (description v))
      \<and> (case owner_eq m of None \<Rightarrow> True | Some u \<Rightarrow> v_owner v = u)
      \<and> (case isPublished_eq m of None \<Rightarrow> True | Some b \<Rightarrow> isPublished v = b))"

definition matchStage :: "env \<Rightarrow> matchConditions \<Rightarrow> video list \<Rightarrow> error + video list" where
  "matchStage e m vs =
     (case or_regex m of
        None \<Rightarrow> Inr (filter (satisfies None m) vs)
      | Some pat \<Rightarrow>
          (case regex e pat of
             None \<Rightarrow> Inl (Thrown ''MongoServerError'')
           | Some f \<Rightarrow> Inr (filter (satisfies (Some f) m) vs)))"

definition countDocuments :: "env \<Rightarrow> matchConditions \<Rightarrow> video list \<Rightarrow> error + int" where
  "countDocuments e m vs =
     (case matchStage e m vs of Inl err \<Rightarrow> Inl err | Inr xs \<Rightarrow> Inr (int (length xs)))"

definition userDoc :: "user \<Rightarrow> doc" where
  "userDoc u =
     [(''_id'', ObjectId (u_id u)), (''username'', String (username u)),
      (''email'', String (email u)), (''fullName'', String (fullName u)),
      (''avatar'', String (avatar u)), (''coverImage'', String (coverImage u)),
      (''password'', String (password u)), (''refreshToken'', String (refreshToken u)),
      (''watchHistory'', Array (map ObjectId (watchHistory u)))]"

text \<open>
  \<^verbatim>\<open>$project\<close> with an inclusion list: the named fields are kept, and so is
  \<^verbatim>\<open>_id\<close>, which an inclusion projection keeps unless it is switched off.
\<close>

definition project :: "string list \<Rightarrow> doc \<Rightarrow> doc" where
  "project keep x = filter (\<lambda>(k, v). k = ''_id'' \<or> k \<in> set keep) x"

text \<open>
  \<^verbatim>\<open>$lookup\<close> from users on \<open>owner = _id\<close> with the projection pipeline, then
  \<^verbatim>\<open>$addFields {owner: {$first: "$owner"}}\<close>.
\<close>

definition lookupOwner :: "user list \<Rightarrow> video \<Rightarrow> videoWithOwner" where
  "lookupOwner us v =
     (let found = map (\<lambda>u. project [''fullName'', ''username'', ''avatar''] (userDoc u))
                    (filter (\<lambda>u. u_id u = v_owner v) us)
      in \<lparr>video_doc = v, owner = (case found of [] \<Rightarrow> None | x # _ \<Rightarrow> Some x)\<rparr>)"

text \<open>
  \<^verbatim>\<open>$lookup\<close> from likes on \<open>_id = video\<close>, \<^verbatim>\<open>$addFields {likesCount: {$size:
  "$likes"}}\<close>, and the projection that drops the likes array.
\<close>

definition countLikes :: "like list \<Rightarrow> video \<Rightarrow> videoWithLikes" where
  "countLikes ls v =
     \<lparr>video_of = v,
      likesCount = int (length (filter (\<lambda>l. l_video l = Some (v_id v)) ls))\<rparr>"

text \<open>
  \<^verbatim>\<open>$sort\<close> on one key with direction \<open>1\<close> or \<open>-1\<close>, as an insertion sort by the
  database's order on that key. The order among equal keys is the database's choice; the
  model keeps the input order.
\<close>

fun insertBy :: "('a \<Rightarrow> 'a \<Rightarrow> bool) \<Rightarrow> 'a \<Rightarrow> 'a list \<Rightarrow> 'a list" where
  "insertBy le x [] = [x]"
| "insertBy le x (y # ys) = (if le x y then x # y # ys else y # insertBy le x ys)"

definition sortStage ::
  "(string \<Rightarrow> ('a \<Rightarrow> 'a \<Rightarrow> bool) option) \<Rightarrow> string \<times> int \<Rightarrow> 'a list \<Rightarrow> error + 'a list" where
  "sortStage order sortOptions xs =
     (case order (fst sortOptions) of
        None \<Rightarrow> Inl (Thrown ''MongoServerError'')
      | Some le \<Rightarrow>
          Inr (foldr (insertBy (if snd sortOptions = - 1 then (\<lambda>a b. le b a) else le)) xs []))"

text \<open>
  \<^verbatim>\<open>$skip\<close> takes a non-negative and \<^verbatim>\<open>$limit\<close> a positive number that is a
  64-bit integer; the database rejects the pipeline otherwise, NaN and the infinities
  included.
\<close>

definition skipStage :: "number \<Rightarrow> 'a list \<Rightarrow> error + 'a list" where
  "skipStage n xs =
     (case n of
        Num k \<Rightarrow> if 0 \<le> k \<and> k \<le> 2 ^ 63 - 1 then Inr (drop (nat k) xs)
                 else Inl (Thrown ''MongoServerError'')
      | _ \<Rightarrow> Inl (Thrown ''MongoServerError''))"

definition limitStage :: "number \<Rightarrow> 'a list \<Rightarrow> error + 'a list" where
  "limitStage n xs =
     (case n of
        Num k \<Rightarrow> if 1 \<le> k \<and> k \<le> 2 ^ 63 - 1 then Inr (take (nat k) xs)
                 else Inl (Thrown ''MongoServerError'')
      | _ \<Rightarrow> Inl (Thrown ''MongoServerError''))"

text \<open>The tail \<^verbatim>\<open>[$sort, $skip, $limit]\<close> both listings share.\<close>

definition sortSkipLimit ::
  "(string \<Rightarrow> ('a \<Rightarrow> 'a \<Rightarrow> bool) option) \<Rightarrow> string \<times> int \<Rightarrow> number \<Rightarrow> number \<Rightarrow>
   'a list \<Rightarrow> error + 'a list" where
  "sortSkipLimit order sortOptions skip lmt xs =
     (case sortStage order sortOptions xs of
        Inl err \<Rightarrow> Inl err
      | Inr ordered \<Rightarrow>
          (case skipStage skip ordered of
             Inl err \<Rightarrow> Inl err
           | Inr skipped \<Rightarrow> limitStage lmt skipped))"



section \<open>Video controller\<close>

text \<open>
  Each handler takes the parts of the request it reads: route parameters, query and body
  fields (\<open>None\<close> when absent), the staged file paths, and \<open>user\<close>, the identifier
  \<^verbatim>\<open>req.user._id\<close> the authentication middleware attached. A handler that writes
  returns the database with its result; the others return the result alone.
\<close>

subsection \<open>getAllVideos\<close>

record reqQuery =
  page :: "string option"
  limit :: "string option"
  query :: "string option"
  sortBy :: "string option"
  sortType :: "string option"
  userId :: "string option"

record pagination =
  currentPage :: int
  totalPages :: int
  totalVideos :: int
  pg_limit :: int

record 'a videoPage =
  page_videos :: "'a list"
  pagination :: pagination

text \<open>Lines 13 to 32: the filter, or the 400 for a malformed \<open>userId\<close>.\<close>

definition feedMatchConditions :: "env \<Rightarrow> reqQuery \<Rightarrow> error + matchConditions" where
  "feedMatchConditions e q =
     (let pat = (if truthy (query q) then query q else None)
      in case userId q of
           None \<Rightarrow> Inr \<lparr>or_regex = pat, owner_eq = None, isPublished_eq = Some True\<rparr>
         | Some u \<Rightarrow>
             if u = [] then Inr \<lparr>or_regex = pat, owner_eq = None, isPublished_eq = Some True\<rparr>
             else if \<not> isValidObjectId e u then Inl (ApiError 400 ''Invalid user ID'')
             else Inr \<lparr>or_regex = pat, owner_eq = Some u, isPublished_eq = Some True\<rparr>)"

text \<open>Lines 35 to 40: the requested sort when both parameters are given, else newest first.\<close>

definition feedSortOptions :: "reqQuery \<Rightarrow> string \<times> int" where
  "feedSortOptions q =
     (case (sortBy q, sortType q) of
        (Some f, Some t) \<Rightarrow>
          if f \<noteq> [] \<and> t \<noteq> [] then (f, if t = ''desc'' then - 1 else 1)
          else (''createdAt'', - 1)
      | _ \<Rightarrow> (''createdAt'', - 1))"

text \<open>\<^verbatim>\<open>(parseInt(page) - 1) * parseInt(limit)\<close>.\<close>

definition skipOf :: "reqQuery \<Rightarrow> number" where
  "skipOf q = multiply (minusOne (parseIntOr 1 (page q))) (parseIntOr 10 (limit q))"

text \<open>
  The pagination object. It is built after the aggregation has accepted the skip and
  \<^verbatim>\<open>parseInt(limit)\<close>, so both parameters are integers there; for any other value
  the handler has failed where the database did.
\<close>

definition paginationOf :: "reqQuery \<Rightarrow> int \<Rightarrow> error + pagination" where
  "paginationOf q n =
     (case (parseIntOr 1 (page q), parseIntOr 10 (limit q)) of
        (Num p, Num l) \<Rightarrow>
          Inr \<lparr>currentPage = p, totalPages = ceilDiv n l, totalVideos = n, pg_limit = l\<rparr>
      | _ \<Rightarrow> Inl (Thrown ''MongoServerError''))"

definition getAllVideos ::
  "env \<Rightarrow> reqQuery \<Rightarrow> db \<Rightarrow> error + videoWithOwner videoPage ApiResponse" where
  "getAllVideos e q d =
     (case feedMatchConditions e q of
        Inl err \<Rightarrow> Inl err
      | Inr matchConditions \<Rightarrow>
          (case matchStage e matchConditions (Videos d) of
             Inl err \<Rightarrow> Inl err
           | Inr matched \<Rightarrow>
               (case sortSkipLimit (orderFeed e) (feedSortOptions q) (skipOf q)
                       (parseIntOr 10 (limit q)) (map (lookupOwner (Users d)) matched) of
                  Inl err \<Rightarrow> Inl err
                | Inr vs \<Rightarrow>
                    (case countDocuments e matchConditions (Videos d) of
                       Inl err \<Rightarrow> Inl err
                     | Inr n \<Rightarrow>
                         (case paginationOf q n of
                            Inl err \<Rightarrow> Inl err
                          | Inr pg \<Rightarrow>
                              Inr \<lparr>statusCode = 200,
                                   data = \<lparr>page_videos = vs, pagination = pg\<rparr>,
                                   message = ''Videos fetched successfully!''\<rparr>)))))"

subsection \<open>publishAVideo\<close>

text \<open>
  \<^verbatim>\<open>Video.create\<close> fills the schema's defaults and a fresh identifier; \<open>blank\<close> is
  that document before the handler's fields are set. A second document with an identifier
  already stored is refused by the database.
\<close>

definition createVideo :: "video \<Rightarrow> db \<Rightarrow> (error + video) \<times> db" where
  "createVideo v d =
     (if v_id v \<in> set (map v_id (Videos d)) then (Inl (Thrown ''MongoServerError''), d)
      else (Inr v, d\<lparr>Videos := Videos d @ [v]\<rparr>))"

text \<open>The \<^verbatim>\<open>try\<close> block: both uploads, any failure rethrown as a 500.\<close>

definition uploadBoth :: "env \<Rightarrow> string \<Rightarrow> string \<Rightarrow> error + (string \<times> int) \<times> string" where
  "uploadBoth e videoPath thumbnailPath =
     (case uploadOnCloudinary e videoPath ''videos'' of
        UploadThrows m \<Rightarrow>
          Inl (ApiError 500 (if m = [] then ''Failed to upload video or thumbnail'' else m))
      | UploadNull \<Rightarrow>
          (case uploadOnCloudinary e thumbnailPath ''thumbnails'' of
             UploadThrows m \<Rightarrow>
               Inl (ApiError 500 (if m = [] then ''Failed to upload video or thumbnail'' else m))
           | _ \<Rightarrow> Inl (ApiError 500 ''Failed to upload video or thumbnail''))
      | Uploaded url dur \<Rightarrow>
          (case uploadOnCloudinary e thumbnailPath ''thumbnails'' of
             UploadThrows m \<Rightarrow>
               Inl (ApiError 500 (if m = [] then ''Failed to upload video or thumbnail'' else m))
           | UploadNull \<Rightarrow> Inl (ApiError 500 ''Failed to upload video or thumbnail'')
           | Uploaded turl _ \<Rightarrow> Inr ((url, dur), turl)))"

definition publishAVideo ::
  "env \<Rightarrow> objectId \<Rightarrow> string option \<Rightarrow> string option \<Rightarrow> string option \<Rightarrow> string option \<Rightarrow>
   video \<Rightarrow> db \<Rightarrow> (error + video ApiResponse) \<times> db" where
  "publishAVideo e user ttl dsc videoPath thumbnailPath blank d =
     (case (ttl, dsc) of
        (Some t, Some ds) \<Rightarrow>
          if t = [] \<or> ds = [] then (Inl (ApiError 400 ''Title and description are required''), d)
          else
            (case videoPath of
               None \<Rightarrow> (Inl (ApiError 400 ''Video file is required''), d)
             | Some vp \<Rightarrow>
                 (case thumbnailPath of
                    None \<Rightarrow> (Inl (ApiError 400 ''Thumbnail image is required''), d)
                  | Some tp \<Rightarrow>
                      (case uploadBoth e vp tp of
                         Inl err \<Rightarrow> (Inl err, d)
                       | Inr ((url, dur), turl) \<Rightarrow>
                           (case createVideo
                                   (blank\<lparr>videoFile := url, thumbnail := turl, title := t,
                                          description := ds, duration := dur,
                                          v_owner := user\<rparr>) d of
                              (Inl err, d') \<Rightarrow> (Inl err, d')
                            | (Inr newVideo, d') \<Rightarrow>
                                (Inr \<lparr>statusCode = 201, data = newVideo,
                                      message = ''Video published successfully!''\<rparr>, d')))))
      | _ \<Rightarrow> (Inl (ApiError 400 ''Title and description are required''), d))"

subsection \<open>getVideoById\<close>

definition getVideoById ::
  "env \<Rightarrow> string \<Rightarrow> db \<Rightarrow> (error + videoWithOwner ApiResponse) \<times> db" where
  "getVideoById e videoId d =
     (if \<not> isValidObjectId e videoId then (Inl (ApiError 400 ''Invalid video ID''), d)
      else
        (case map (lookupOwner (Users d)) (filter (\<lambda>v. v_id v = videoId) (Videos d)) of
           [] \<Rightarrow> (Inl (ApiError 404 ''Video not found''), d)
         | v # _ \<Rightarrow>
             (Inr \<lparr>statusCode = 200, data = v, message = ''Video fetched successfully!''\<rparr>,
              d\<lparr>Videos := updateVideoById videoId (\<lambda>w. w\<lparr>views := views w + 1\<rparr>) (Videos d)\<rparr>)))"

subsection \<open>updateVideo\<close>

text \<open>\<^verbatim>\<open>if (field) updateFields.field = field\<close>: a truthy field is set, any other left.\<close>

definition setIfTruthy :: "string option \<Rightarrow> (string \<Rightarrow> 'a \<Rightarrow> 'a) \<Rightarrow> 'a \<Rightarrow> 'a" where
  "setIfTruthy x upd doc =
     (case x of None \<Rightarrow> doc | Some s \<Rightarrow> if s = [] then doc else upd s doc)"

definition updateVideo ::
  "env \<Rightarrow> objectId \<Rightarrow> string \<Rightarrow> string option \<Rightarrow> string option \<Rightarrow> string option \<Rightarrow> db \<Rightarrow>
   (error + video ApiResponse) \<times> db" where
  "updateVideo e user videoId ttl dsc file d =
     (if \<not> isValidObjectId e videoId then (Inl (ApiError 400 ''Invalid video ID''), d)
      else if \<not> truthy ttl \<and> \<not> truthy dsc \<and> file = None
      then (Inl (ApiError 400 ''At least one field is required to update''), d)
      else
        (case findVideoById (Videos d) videoId of
           None \<Rightarrow> (Inl (ApiError 404 ''Video not found''), d)
         | Some v \<Rightarrow>
             if v_owner v \<noteq> user
             then (Inl (ApiError 403 ''You are not authorized to update this video''), d)
             else
               (let updateFields =
                      setIfTruthy dsc (\<lambda>s w. w\<lparr>description := s\<rparr>) \<circ>
                      setIfTruthy ttl (\<lambda>s w. w\<lparr>title := s\<rparr>)
                in case file of
                     None \<Rightarrow>
                       (Inr \<lparr>statusCode = 200, data = updateFields v,
                             message = ''Video updated successfully!''\<rparr>,
                        d\<lparr>Videos := updateVideoById videoId updateFields (Videos d)\<rparr>)
                   | Some path \<Rightarrow>
                       (case uploadOnCloudinary e path ''thumbnails'' of
                          UploadThrows m \<Rightarrow> (Inl (Thrown m), d)
                        | UploadNull \<Rightarrow> (Inl (ApiError 500 ''Failed to upload thumbnail''), d)
                        | Uploaded url _ \<Rightarrow>
                            (Inr \<lparr>statusCode = 200,
                                  data = (updateFields v)\<lparr>thumbnail := url\<rparr>,
                                  message = ''Video updated successfully!''\<rparr>,
                             d\<lparr>Videos := updateVideoById videoId
                                            (\<lambda>w. (updateFields w)\<lparr>thumbnail := url\<rparr>)
                                            (Videos d)\<rparr>)))))"

subsection \<open>deleteVideo\<close>

definition deleteVideo ::
  "env \<Rightarrow> objectId \<Rightarrow> string \<Rightarrow> db \<Rightarrow> (error + unit ApiResponse) \<times> db" where
  "deleteVideo e user videoId d =
     (if \<not> isValidObjectId e videoId then (Inl (ApiError 400 ''Invalid video ID''), d)
      else
        (case findVideoById (Videos d) videoId of
           None \<Rightarrow> (Inl (ApiError 404 ''Video not found''), d)
         | Some v \<Rightarrow>
             if v_owner v \<noteq> user
             then (Inl (ApiError 403 ''You are not authorized to delete this video''), d)
             else (Inr \<lparr>statusCode = 200, data = (),
                        message = ''Video deleted successfully!''\<rparr>,
                   d\<lparr>Videos := deleteVideoById videoId (Videos d)\<rparr>)))"

subsection \<open>togglePublishStatus\<close>

definition togglePublishStatus ::
  "env \<Rightarrow> objectId \<Rightarrow> string \<Rightarrow> db \<Rightarrow> (error + video ApiResponse) \<times> db" where
  "togglePublishStatus e user videoId d =
     (if \<not> isValidObjectId e videoId then (Inl (ApiError 400 ''Invalid video ID''), d)
      else case findVideoById (Videos d) videoId of
        None \<Rightarrow> (Inl (ApiError 404 ''Video not found''), d)
      | Some v \<Rightarrow>
          if v_owner v \<noteq> user
          then (Inl (ApiError 403
                  ''You are not authorized to change this video's publish status''), d)
          else
            let v' = v\<lparr>isPublished := \<not> isPublished v\<rparr>
            in (Inr \<lparr>statusCode = 200, data = v',
                     message = ''Video '' @ (if isPublished v' then ''published''
                                             else ''unpublished'') @ '' successfully!''\<rparr>,
                d\<lparr>Videos := updateVideoById videoId (\<lambda>_. v') (Videos d)\<rparr>))"

section \<open>Playlist controller\<close>

subsection \<open>createPlaylist\<close>

text \<open>
  \<^verbatim>\<open>Playlist.create\<close>: the schema's validation, then the insertion; \<open>blank\<close> is
  the document with its fresh identifier before the handler's fields are set.
\<close>

definition createPlaylistDoc :: "env \<Rightarrow> playlist \<Rightarrow> db \<Rightarrow> (error + playlist) \<times> db" where
  "createPlaylistDoc e p d =
     (if \<not> validatePlaylist e p then (Inl (Thrown ''ValidationError''), d)
      else if p_id p \<in> set (map p_id (Playlists d)) then (Inl (Thrown ''MongoServerError''), d)
      else (Inr p, d\<lparr>Playlists := Playlists d @ [p]\<rparr>))"

definition createPlaylist ::
  "env \<Rightarrow> objectId \<Rightarrow> string option \<Rightarrow> string option \<Rightarrow> playlist \<Rightarrow> db \<Rightarrow>
   (error + playlist ApiResponse) \<times> db" where
  "createPlaylist e user nm dsc blank d =
     (if list_ex (\<lambda>field. map_option trim field = Some []) [nm, dsc]
      then (Inl (ApiError 400 ''All fields are required''), d)
      else
        (case find (\<lambda>p. name p = nm \<and> p_owner p = user) (Playlists d) of
           Some existingPlaylist \<Rightarrow>
             (Inl (ApiError 400 ''Playlist with the same name already exists''), d)
         | None \<Rightarrow>
             (case createPlaylistDoc e
                     (blank\<lparr>name := nm, p_description := dsc, p_owner := user\<rparr>) d of
                (Inl err, d') \<Rightarrow> (Inl err, d')
              | (Inr newPlaylist, d') \<Rightarrow>
                  (Inr \<lparr>statusCode = 201, data = newPlaylist,
                        message = ''Playlist created successfully''\<rparr>, d'))))"

subsection \<open>getUserPlaylists and getPlaylistById\<close>

text \<open>
  \<^verbatim>\<open>populate("videos")\<close>: each reference of the list is replaced by the stored
  video it resolves to; a reference that resolves to none is dropped.
\<close>

record populatedPlaylist =
  playlist_doc :: playlist
  populated :: "video list"

definition populate :: "video list \<Rightarrow> playlist \<Rightarrow> populatedPlaylist" where
  "populate vs p =
     \<lparr>playlist_doc = p, populated = List.map_filter (findVideoById vs) (videos p)\<rparr>"

definition getUserPlaylists ::
  "env \<Rightarrow> string \<Rightarrow> db \<Rightarrow> error + populatedPlaylist list ApiResponse" where
  "getUserPlaylists e uid d =
     (if \<not> isValidObjectId e uid then Inl (ApiError 400 ''Invalid user ID'')
      else Inr \<lparr>statusCode = 200,
                data = map (populate (Videos d)) (filter (\<lambda>p. p_owner p = uid) (Playlists d)),
                message = ''User playlists fetched successfully''\<rparr>)"

definition getPlaylistById ::
  "env \<Rightarrow> string \<Rightarrow> db \<Rightarrow> error + populatedPlaylist ApiResponse" where
  "getPlaylistById e playlistId d =
     (if \<not> isValidObjectId e playlistId then Inl (ApiError 400 ''Invalid playlist ID'')
      else
        (case findPlaylistById (Playlists d) playlistId of
           None \<Rightarrow> Inl (ApiError 404 ''Playlist not found'')
         | Some p \<Rightarrow>
             Inr \<lparr>statusCode = 200, data = populate (Videos d) p,
                  message = ''Playlist fetched successfully''\<rparr>))"

subsection \<open>addVideoToPlaylist and removeVideoFromPlaylist\<close>

text \<open>
  \<^verbatim>\<open>playlist.videos.includes(videoId)\<close> and the filter of the removal compare the
  string forms of the stored references with the identifier as the request spelled it;
  \<^verbatim>\<open>playlist.videos.push(videoId)\<close> stores the ObjectId the identifier is cast to.
\<close>

definition addVideoToPlaylist ::
  "env \<Rightarrow> string \<Rightarrow> string \<Rightarrow> db \<Rightarrow> (error + playlist ApiResponse) \<times> db" where
  "addVideoToPlaylist e playlistId videoId d =
     (if \<not> isValidObjectId e playlistId \<or> \<not> isValidObjectId e videoId
      then (Inl (ApiError 400 ''Invalid playlist ID or video ID''), d)
      else
        (case findPlaylistById (Playlists d) playlistId of
           None \<Rightarrow> (Inl (ApiError 404 ''Playlist not found''), d)
         | Some p \<Rightarrow>
             if videoId \<in> set (videos p)
             then (Inl (ApiError 400 ''Video already in playlist''), d)
             else
               (let p' = p\<lparr>videos := videos p @ [castObjectId e videoId]\<rparr>
                in (Inr \<lparr>statusCode = 200, data = p',
                         message = ''Video added to playlist successfully''\<rparr>,
                    d\<lparr>Playlists := updatePlaylistById playlistId (\<lambda>_. p') (Playlists d)\<rparr>))))"

definition removeVideoFromPlaylist ::
  "env \<Rightarrow> string \<Rightarrow> string \<Rightarrow> db \<Rightarrow> (error + playlist ApiResponse) \<times> db" where
  "removeVideoFromPlaylist e playlistId videoId d =
     (if \<not> isValidObjectId e playlistId \<or> \<not> isValidObjectId e videoId
      then (Inl (ApiError 400 ''Invalid playlist ID or video ID''), d)
      else
        (case findPlaylistById (Playlists d) playlistId of
           None \<Rightarrow> (Inl (ApiError 404 ''Playlist not found''), d)
         | Some p \<Rightarrow>
             if videoId \<notin> set (videos p)
             then (Inl (ApiError 400 ''Video not found in playlist''), d)
             else
               (let p' = p\<lparr>videos := filter (\<lambda>vid. vid \<noteq> videoId) (videos p)\<rparr>
                in (Inr \<lparr>statusCode = 200, data = p',
                         message = ''Video removed from playlist successfully''\<rparr>,
                    d\<lparr>Playlists := updatePlaylistById playlistId (\<lambda>_. p') (Playlists d)\<rparr>))))"

subsection \<open>deletePlaylist and updatePlaylist\<close>

definition deletePlaylist ::
  "env \<Rightarrow> objectId \<Rightarrow> string \<Rightarrow> db \<Rightarrow> (error + unit ApiResponse) \<times> db" where
  "deletePlaylist e user playlistId d =
     (if \<not> isValidObjectId e playlistId then (Inl (ApiError 400 ''Invalid playlist ID''), d)
      else
        (case findPlaylistById (Playlists d) playlistId of
           None \<Rightarrow> (Inl (ApiError 404 ''Playlist not found''), d)
         | Some p \<Rightarrow>
             if p_owner p \<noteq> user
             then (Inl (ApiError 403 ''You are not authorized to delete this playlist''), d)
             else (Inr \<lparr>statusCode = 200, data = (),
                        message = ''Playlist deleted successfully''\<rparr>,
                   d\<lparr>Playlists := deletePlaylistById playlistId (Playlists d)\<rparr>)))"

definition updatePlaylist ::
  "env \<Rightarrow> objectId \<Rightarrow> string \<Rightarrow> string option \<Rightarrow> string option \<Rightarrow> db \<Rightarrow>
   (error + playlist ApiResponse) \<times> db" where
  "updatePlaylist e user playlistId nm dsc d =
     (if \<not> isValidObjectId e playlistId then (Inl (ApiError 400 ''Invalid playlist ID''), d)
      else if \<not> truthy nm \<and> \<not> truthy dsc
      then (Inl (ApiError 400 ''At least one field (name or description) is required''), d)
      else if map_option trim nm = Some []
      then (Inl (ApiError 400 ''Name cannot be empty''), d)
      else if map_option trim dsc = Some []
      then (Inl (ApiError 400 ''Description cannot be empty''), d)
      else
        (case findPlaylistById (Playlists d) playlistId of
           None \<Rightarrow> (Inl (ApiError 404 ''Playlist not found''), d)
         | Some p \<Rightarrow>
             if p_owner p \<noteq> user
             then (Inl (ApiError 403 ''You are not authorized to update this playlist''), d)
             else
               (let p' = setIfTruthy dsc (\<lambda>s w. w\<lparr>p_description := Some s\<rparr>)
                           (setIfTruthy nm (\<lambda>s w. w\<lparr>name := Some s\<rparr>) p)
                in (Inr \<lparr>statusCode = 200, data = p',
                         message = ''Playlist updated successfully!''\<rparr>,
                    d\<lparr>Playlists := updatePlaylistById playlistId (\<lambda>_. p') (Playlists d)\<rparr>))))"

section \<open>Dashboard controller\<close>

text \<open>
  The stats object; \<open>stats_totalVideos\<close> is its \<^verbatim>\<open>totalVideos\<close> field, renamed
  apart from the field of the pagination object.
\<close>

record stats =
  totalSubscribers :: int
  stats_totalVideos :: int
  totalViews :: int
  totalLikes :: int

text \<open>
  \<^verbatim>\<open>$group\<close> with \<^verbatim>\<open>_id: null\<close>: one document holding the count and the sum of
  views, and no document at all when nothing reached the stage.
\<close>

definition groupVideoStats :: "video list \<Rightarrow> (int \<times> int) list" where
  "groupVideoStats vs =
     (case vs of [] \<Rightarrow> [] | _ # _ \<Rightarrow> [(int (length vs), sum_list (map views vs))])"

text \<open>
  The likes pipeline: each like joined with the videos it refers to and unwound, the pairs
  whose video belongs to the channel kept, then counted by \<^verbatim>\<open>$group\<close>.
\<close>

definition groupLikesStats :: "objectId \<Rightarrow> db \<Rightarrow> int list" where
  "groupLikesStats channelId d =
     (let unwound = concat (map (\<lambda>l. map (\<lambda>v. (l, v))
                                        (filter (\<lambda>v. l_video l = Some (v_id v)) (Videos d)))
                             (Likes d));
          matched = filter (\<lambda>(l, v). v_owner v = channelId) unwound
      in case matched of [] \<Rightarrow> [] | _ # _ \<Rightarrow> [int (length matched)])"

definition getChannelStats :: "objectId \<Rightarrow> db \<Rightarrow> error + stats ApiResponse" where
  "getChannelStats user d =
     (let channelId = user;
          subscribers = int (length (filter (\<lambda>s. channel s = channelId) (Subscriptions d)));
          videoStats = groupVideoStats (filter (\<lambda>v. v_owner v = channelId) (Videos d));
          likesStats = groupLikesStats channelId d
      in Inr \<lparr>statusCode = 200,
              data = \<lparr>totalSubscribers = subscribers,
                      stats_totalVideos = orZero (case videoStats of [] \<Rightarrow> None | x # _ \<Rightarrow> Some (fst x)),
                      totalViews = orZero (case videoStats of [] \<Rightarrow> None | x # _ \<Rightarrow> Some (snd x)),
                      totalLikes = orZero (case likesStats of [] \<Rightarrow> None | x # _ \<Rightarrow> Some x)\<rparr>,
              message = ''Channel stats fetched successfully''\<rparr>)"

text \<open>
  \<^verbatim>\<open>sortBy = "createdAt"\<close> and \<^verbatim>\<open>sortType = "desc"\<close> stand in only for an
  absent parameter.
\<close>

definition channelSortOptions :: "reqQuery \<Rightarrow> string \<times> int" where
  "channelSortOptions q =
     (case sortBy q of None \<Rightarrow> ''createdAt'' | Some f \<Rightarrow> f,
      if (case sortType q of None \<Rightarrow> ''desc'' | Some t \<Rightarrow> t) = ''desc'' then - 1 else 1)"

definition getChannelVideos ::
  "env \<Rightarrow> objectId \<Rightarrow> reqQuery \<Rightarrow> db \<Rightarrow> error + videoWithLikes videoPage ApiResponse" where
  "getChannelVideos e user q d =
     (let channelId = user;
          matched = filter (\<lambda>v. v_owner v = channelId) (Videos d)
      in case sortSkipLimit (orderChannel e) (channelSortOptions q) (skipOf q)
                (parseIntOr 10 (limit q)) (map (countLikes (Likes d)) matched) of
           Inl err \<Rightarrow> Inl err
         | Inr vs \<Rightarrow>
             (case paginationOf q (int (length matched)) of
                Inl err \<Rightarrow> Inl err
              | Inr pg \<Rightarrow>
                  Inr \<lparr>statusCode = 200, data = \<lparr>page_videos = vs, pagination = pg\<rparr>,
                       message = ''Channel videos fetched successfully''\<rparr>))"

section \<open>Requests as a transition system\<close>

text \<open>
  One request to a handler of the three controllers, with the arguments the handler
  reads. \<open>step\<close> is the effect of the request on the database when the authenticated
  caller is \<open>user\<close>; the handlers that list, fetch playlists or compute statistics
  write nothing.
\<close>

datatype operation =
    GetAllVideos reqQuery
  | PublishAVideo "string option" "string option" "string option" "string option" video
  | GetVideoById string
  | UpdateVideo string "string option" "string option" "string option"
  | DeleteVideo string
  | TogglePublishStatus string
  | CreatePlaylist "string option" "string option" playlist
  | GetUserPlaylists string
  | GetPlaylistById string
  | AddVideoToPlaylist string string
  | RemoveVideoFromPlaylist string string
  | DeletePlaylist string
  | UpdatePlaylist string "string option" "string option"
  | GetChannelStats
  | GetChannelVideos reqQuery

fun step :: "env \<Rightarrow> objectId \<Rightarrow> operation \<Rightarrow> db \<Rightarrow> db" where
  "step e user (GetAllVideos q) d = d"
| "step e user (PublishAVideo ttl dsc vp tp blank) d = snd (publishAVideo e user ttl dsc vp tp blank d)"
| "step e user (GetVideoById videoId) d = snd (getVideoById e videoId d)"
| "step e user (UpdateVideo videoId ttl dsc file) d = snd (updateVideo e user videoId ttl dsc file d)"
| "step e user (DeleteVideo videoId) d = snd (deleteVideo e user videoId d)"
| "step e user (TogglePublishStatus videoId) d = snd (togglePublishStatus e user videoId d)"
| "step e user (CreatePlaylist nm dsc blank) d = snd (createPlaylist e user nm dsc blank d)"
| "step e user (GetUserPlaylists uid) d = d"
| "step e user (GetPlaylistById playlistId) d = d"
| "step e user (AddVideoToPlaylist playlistId videoId) d = snd (addVideoToPlaylist e playlistId videoId d)"
| "step e user (RemoveVideoFromPlaylist playlistId videoId) d =
     snd (removeVideoFromPlaylist e playlistId videoId d)"
| "step e user (DeletePlaylist playlistId) d = snd (deletePlaylist e user playlistId d)"
| "step e user (UpdatePlaylist playlistId nm dsc) d = snd (updatePlaylist e user playlistId nm dsc d)"
| "step e user GetChannelStats d = d"
| "step e user (GetChannelVideos q) d = d"

section \<open>Example data\<close>

definition alice :: objectId where "alice = ''64b7f0c2a1d3e4f5a6b7c8a1''"
definition bob :: objectId where "bob = ''64b7f0c2a1d3e4f5a6b7c8b2''"
definition video1 :: objectId where "video1 = ''64b7f0c2a1d3e4f5a6b7c801''"
definition video2 :: objectId where "video2 = ''64b7f0c2a1d3e4f5a6b7c802''"
text \<open>The identifier \<open>video1\<close> as a request may spell it, in upper case.\<close>

definition video1Upper :: string where "video1Upper = ''64B7F0C2A1D3E4F5A6B7C801''"

definition playlist1 :: objectId where "playlist1 = ''64b7f0c2a1d3e4f5a6b7c9f1''"
definition playlist2 :: objectId where "playlist2 = ''64b7f0c2a1d3e4f5a6b7c9f2''"

text \<open>The lower-case form of a hexadecimal digit.\<close>

definition lowerHex :: "char \<Rightarrow> char" where
  "lowerHex c =
     (if c = CHR ''A'' then CHR ''a'' else if c = CHR ''B'' then CHR ''b''
      else if c = CHR ''C'' then CHR ''c'' else if c = CHR ''D'' then CHR ''d''
      else if c = CHR ''E'' then CHR ''e'' else if c = CHR ''F'' then CHR ''f'' else c)"

text \<open>
  An environment for identifiers of 24 hexadecimal digits: the cast lowers the case of
  the digits.
\<close>

definition env0 :: env where
  "env0 =
     \<lparr>isValidObjectId = (\<lambda>s. length s = 24),
      castObjectId = map lowerHex,
      regex = (\<lambda>pat. Some (\<lambda>s. True)),
      orderFeed = (\<lambda>f. Some (\<lambda>a b. createdAt (video_doc a) \<le> createdAt (video_doc b))),
      orderChannel = (\<lambda>f. Some (\<lambda>a b. createdAt (video_of a) \<le> createdAt (video_of b))),
      validatePlaylist = (\<lambda>p. True),
      uploadOnCloudinary = (\<lambda>path folder. Uploaded (folder @ ''/'' @ path) 0)\<rparr>"

definition userAlice :: user where
  "userAlice =
     \<lparr>u_id = alice, username = ''alice'', email = ''alice@example.com'',
      fullName = ''Alice A'', avatar = ''alice.png'', coverImage = ''cover.png'',
      password = ''$2b$10$hash'', refreshToken = ''token'', watchHistory = []\<rparr>"

definition publicVideo :: video where
  "publicVideo =
     \<lparr>v_id = video1, videoFile = ''one.mp4'', thumbnail = ''one.png'', title = ''One'',
      description = ''first'', duration = 60, views = 5, isPublished = True,
      v_owner = alice, createdAt = 1000\<rparr>"

definition draftVideo :: video where
  "draftVideo =
     \<lparr>v_id = video2, videoFile = ''two.mp4'', thumbnail = ''two.png'', title = ''Two'',
      description = ''second'', duration = 30, views = 0, isPublished = False,
      v_owner = alice, createdAt = 2000\<rparr>"

definition favorites :: playlist where
  "favorites =
     \<lparr>p_id = playlist1, name = Some ''Favorites'', p_description = Some ''x'',
      p_owner = alice, videos = [video1]\<rparr>"

definition db0 :: db where
  "db0 =
     \<lparr>Users = [userAlice], Videos = [publicVideo, draftVideo], Playlists = [favorites],
      Subscriptions = [], Likes = []\<rparr>"

definition noQuery :: reqQuery where
  "noQuery =
     \<lparr>page = None, limit = None, query = None, sortBy = None, sortType = None, userId = None\<rparr>"

definition feedItem1 :: videoWithOwner where
  "feedItem1 =
     \<lparr>video_doc = publicVideo,
      owner = Some [(''_id'', ObjectId alice), (''username'', String ''alice''),
                    (''fullName'', String ''Alice A''), (''avatar'', String ''alice.png'')]\<rparr>"

definition pageQuery :: reqQuery where
  "pageQuery = noQuery\<lparr>page := Some ''2'', limit := Some ''1''\<rparr>"

definition pageZeroQuery :: reqQuery where
  "pageZeroQuery = noQuery\<lparr>page := Some ''0''\<rparr>"

definition limitZeroQuery :: reqQuery where
  "limitZeroQuery = noQuery\<lparr>limit := Some ''0''\<rparr>"

definition bigPageQuery :: reqQuery where
  "bigPageQuery = noQuery\<lparr>page := Some ''9007199254740993'', limit := Some ''1''\<rparr>"

definition db1 :: db where
  "db1 = db0\<lparr>Subscriptions := [\<lparr>subscriber = bob, channel = alice\<rparr>],
             Likes := [\<lparr>likedBy = bob, l_video = Some video1\<rparr>]\<rparr>"

definition blankPlaylist :: playlist where
  "blankPlaylist =
     \<lparr>p_id = playlist2, name = None, p_description = None, p_owner = [], videos = []\<rparr>"

text \<open>An environment whose Playlist schema requires a name and a description.\<close>

definition envRequired :: env where
  "envRequired = env0\<lparr>validatePlaylist := (\<lambda>p. name p \<noteq> None \<and> p_description p \<noteq> None)\<rparr>"

text \<open>The database without its users: every video's owner is dangling.\<close>

definition dbNoUsers :: db where
  "dbNoUsers = db0\<lparr>Users := []\<rparr>"

text \<open>The database without any video.\<close>

definition dbNoVideos :: db where
  "dbNoVideos = db0\<lparr>Videos := []\<rparr>"

section \<open>Properties\<close>

subsection \<open>Storage primitives\<close>

lemma findVideoById_id: "findVideoById vs i = Some v \<Longrightarrow> v_id v = i"
  by (induction vs) (auto simp: findVideoById_def split: if_splits)

lemma findVideoById_update:
  "(\<And>v. v_id (f v) = v_id v) \<Longrightarrow>
   findVideoById (updateVideoById i f vs) j =
     (if j = i then map_option f (findVideoById vs i) else findVideoById vs j)"
  by (induction vs) (auto simp: findVideoById_def)

lemma findVideoById_update_const:
  "v_id w = i \<Longrightarrow> findVideoById vs i = Some v \<Longrightarrow>
   findVideoById (updateVideoById i (\<lambda>_. w) vs) i = Some w"
  by (induction vs) (auto simp: findVideoById_def)

lemma updateVideoById_restore:
  "findVideoById vs i = Some v \<Longrightarrow> v_id w = i \<Longrightarrow>
   updateVideoById i (\<lambda>_. v) (updateVideoById i (\<lambda>_. w) vs) = vs"
  by (induction vs) (auto simp: findVideoById_def split: if_splits)

subsection \<open>Publish toggle\<close>

text \<open>
  C9. For a video owned by the caller, togglePublishStatus stores and returns the video
  with its publish flag negated, the message says "published" when the flag became true
  and "unpublished" when it became false, and a second toggle by the owner restores the
  database as it was before the first.
\<close>

theorem togglePublishStatus_flips:
  assumes "isValidObjectId e videoId"
    and "findVideoById (Videos d) videoId = Some v"
    and "v_owner v = user"
  shows "\<exists>d'. togglePublishStatus e user videoId d =
           (Inr \<lparr>statusCode = 200, data = v\<lparr>isPublished := \<not> isPublished v\<rparr>,
                 message = (if isPublished v then ''Video unpublished successfully!''
                            else ''Video published successfully!'')\<rparr>, d')
         \<and> findVideoById (Videos d') videoId = Some (v\<lparr>isPublished := \<not> isPublished v\<rparr>)
         \<and> snd (togglePublishStatus e user videoId d') = d"
proof -
  let ?v' = "v\<lparr>isPublished := \<not> isPublished v\<rparr>"
  let ?d' = "d\<lparr>Videos := updateVideoById videoId (\<lambda>_. ?v') (Videos d)\<rparr>"
  have id: "v_id v = videoId"
    using assms(2) by (rule findVideoById_id)
  have first: "togglePublishStatus e user videoId d =
      (Inr \<lparr>statusCode = 200, data = ?v',
            message = (if isPublished v then ''Video unpublished successfully!''
                       else ''Video published successfully!'')\<rparr>, ?d')"
    using assms by (simp add: togglePublishStatus_def Let_def)
  have found: "findVideoById (Videos ?d') videoId = Some ?v'"
    using assms(2) id by (simp add: findVideoById_update_const)
  have "updateVideoById videoId (\<lambda>_. ?v'\<lparr>isPublished := \<not> isPublished ?v'\<rparr>)
          (updateVideoById videoId (\<lambda>_. ?v') (Videos d)) = Videos d"
    using updateVideoById_restore [OF assms(2), of ?v'] id by simp
  then have second: "snd (togglePublishStatus e user videoId ?d') = d"
    using assms(1,3) found by (simp add: togglePublishStatus_def Let_def)
  show ?thesis
    using first found second by blast
qed

theorem togglePublishStatus_flips_witness:
  "isValidObjectId env0 video2 \<and> findVideoById (Videos db0) video2 = Some draftVideo
   \<and> v_owner draftVideo = alice
   \<and> (\<exists>d'. togglePublishStatus env0 alice video2 db0 =
           (Inr \<lparr>statusCode = 200, data = draftVideo\<lparr>isPublished := True\<rparr>,
                 message = ''Video published successfully!''\<rparr>, d')
         \<and> findVideoById (Videos d') video2 = Some (draftVideo\<lparr>isPublished := True\<rparr>)
         \<and> snd (togglePublishStatus env0 alice video2 d') = db0)"
proof -
  have h1: "isValidObjectId env0 video2"
    by (simp add: env0_def video2_def)
  have h2: "findVideoById (Videos db0) video2 = Some draftVideo"
    by (simp add: findVideoById_def db0_def publicVideo_def draftVideo_def video1_def video2_def)
  have h3: "v_owner draftVideo = alice"
    by (simp add: draftVideo_def)
  have h4: "\<not> isPublished draftVideo"
    by (simp add: draftVideo_def)
  show ?thesis
    using togglePublishStatus_flips [OF h1 h2 h3] h1 h2 h3 h4 by simp
qed

subsection \<open>Evaluating the handlers on the example data\<close>

lemmas fixture_defs = env0_def db0_def alice_def bob_def video1_def video2_def playlist1_def
  playlist2_def userAlice_def publicVideo_def draftVideo_def favorites_def noQuery_def
  feedItem1_def pageQuery_def

lemma toNumber_exact: "\<bar>n\<bar> < 2 ^ 53 \<Longrightarrow> toNumber n = Num n"
proof -
  assume a: "\<bar>n\<bar> < 2 ^ 53"
  then have r: "roundMagnitude \<bar>n\<bar> = \<bar>n\<bar>"
    by (simp add: roundMagnitude_def)
  have "(2::int) ^ 53 \<le> 2 ^ 1024"
    by (rule power_increasing) simp_all
  then have "\<not> 2 ^ 1024 \<le> \<bar>n\<bar>"
    using a by linarith
  then show ?thesis
    using r by (simp add: toNumber_def Let_def)
qed

lemma ceilDiv_eq_div: "ceilDiv a b = - (- a div b)"
  by (simp add: ceilDiv_def ceiling_divide_eq_div)

lemmas stage_defs = matchStage_def satisfies_def countDocuments_def lookupOwner_def userDoc_def
  project_def countLikes_def sortSkipLimit_def sortStage_def skipStage_def limitStage_def
  parseIntOr_def truthy_def ceilDiv_eq_div skipOf_def paginationOf_def minusOne_def
  multiply_def toNumber_exact

lemmas parseInt_defs = parseInt_def stripSign_def stripRadix_def digitValue_def isWhiteSpace_def

lemma feed_db0:
  "getAllVideos env0 noQuery db0 =
     Inr \<lparr>statusCode = 200,
          data = \<lparr>page_videos = [feedItem1],
                  pagination = \<lparr>currentPage = 1, totalPages = 1, totalVideos = 1,
                                pg_limit = 10\<rparr>\<rparr>,
          message = ''Videos fetched successfully!''\<rparr>"
  by (simp add: getAllVideos_def feedMatchConditions_def feedSortOptions_def stage_defs
      fixture_defs)

subsection \<open>Aggregation stages\<close>

lemma set_insertBy: "set (insertBy le x xs) = insert x (set xs)"
  by (induction xs) auto

lemma length_insertBy: "length (insertBy le x xs) = Suc (length xs)"
  by (induction xs) auto

lemma set_insertion_sort: "set (foldr (insertBy le) xs []) = set xs"
  by (induction xs) (simp_all add: set_insertBy)

lemma length_insertion_sort: "length (foldr (insertBy le) xs []) = length xs"
  by (induction xs) (simp_all add: length_insertBy)

lemma sortStage_Inr:
  "sortStage order so xs = Inr ys \<Longrightarrow> set ys = set xs \<and> length ys = length xs"
  by (auto simp: sortStage_def set_insertion_sort length_insertion_sort split: option.splits)

lemma skipStage_Inr: "skipStage n xs = Inr ys \<Longrightarrow> set ys \<subseteq> set xs"
  by (auto simp: skipStage_def split: number.splits if_splits dest: in_set_dropD)

lemma limitStage_Inr: "limitStage n xs = Inr ys \<Longrightarrow> set ys \<subseteq> set xs"
  by (auto simp: limitStage_def split: number.splits if_splits dest: in_set_takeD)

lemma sortSkipLimit_subset:
  assumes "sortSkipLimit order so skip lmt xs = Inr ys"
  shows "set ys \<subseteq> set xs"
proof -
  from assms obtain s1 s2 where s1: "sortStage order so xs = Inr s1"
    and s2: "skipStage skip s1 = Inr s2" and s3: "limitStage lmt s2 = Inr ys"
    by (auto simp: sortSkipLimit_def split: sum.splits)
  from sortStage_Inr [OF s1] skipStage_Inr [OF s2] limitStage_Inr [OF s3]
  show ?thesis by blast
qed

lemma sortSkipLimit_length:
  assumes "order (fst so) = Some le" and "0 \<le> k" and "k \<le> 2 ^ 63 - 1"
    and "1 \<le> l" and "l \<le> 2 ^ 63 - 1"
  shows "\<exists>ys. sortSkipLimit order so (Num k) (Num l) xs = Inr ys
           \<and> int (length ys) = min l (max 0 (int (length xs) - k))"
proof -
  let ?s = "foldr (insertBy (if snd so = - 1 then (\<lambda>a b. le b a) else le)) xs []"
  have "sortSkipLimit order so (Num k) (Num l) xs = Inr (take (nat l) (drop (nat k) ?s))"
    using assms by (simp add: sortSkipLimit_def sortStage_def skipStage_def limitStage_def)
  moreover have "int (length (take (nat l) (drop (nat k) ?s))) = min l (max 0 (int (length xs) - k))"
    using assms(2,4) by (simp add: length_insertion_sort)
  ultimately show ?thesis by blast
qed

lemma matchStage_Inr:
  "matchStage e m vs = Inr xs \<Longrightarrow>
   set xs \<subseteq> set vs \<and>
   (\<forall>v\<in>set xs. case isPublished_eq m of None \<Rightarrow> True | Some b \<Rightarrow> isPublished v = b)"
  by (auto simp: matchStage_def satisfies_def split: option.splits)

lemma feedMatchConditions_published:
  "feedMatchConditions e q = Inr m \<Longrightarrow> isPublished_eq m = Some True"
  by (auto simp: feedMatchConditions_def Let_def split: option.splits if_splits)

lemma skipOf_parsed:
  assumes "parseIntOr 1 (page q) = Num p" and "parseIntOr 10 (limit q) = Num l"
    and "1 \<le> p" and "p < 2 ^ 53" and "1 \<le> l" and "(p - 1) * l < 2 ^ 53"
  shows "skipOf q = Num ((p - 1) * l)"
proof -
  have "minusOne (Num p) = Num (p - 1)"
    using assms(3,4) by (simp add: minusOne_def toNumber_exact)
  moreover have "0 \<le> (p - 1) * l"
    using assms(3,5) by simp
  then have "multiply (Num (p - 1)) (Num l) = Num ((p - 1) * l)"
    using assms(6) by (simp add: multiply_def toNumber_exact)
  ultimately show ?thesis
    using assms(1,2) by (simp add: skipOf_def)
qed

lemma paginationOf_parsed:
  "parseIntOr 1 (page q) = Num p \<Longrightarrow> parseIntOr 10 (limit q) = Num l \<Longrightarrow>
   paginationOf q n =
     Inr \<lparr>currentPage = p, totalPages = ceilDiv n l, totalVideos = n, pg_limit = l\<rparr>"
  by (simp add: paginationOf_def)

subsection \<open>The public feed shows published videos only\<close>

text \<open>
  C2. Whatever the query, userId, sortBy, sortType, page and limit parameters are, every
  video that getAllVideos returns is a stored video whose isPublished flag is true.
\<close>

theorem getAllVideos_only_published:
  assumes "getAllVideos e q d = Inr r" and "item \<in> set (page_videos (data r))"
  shows "isPublished (video_doc item) \<and> video_doc item \<in> set (Videos d)"
proof -
  from assms(1) obtain m matched vs where m: "feedMatchConditions e q = Inr m"
    and matched: "matchStage e m (Videos d) = Inr matched"
    and vs: "sortSkipLimit (orderFeed e) (feedSortOptions q) (skipOf q)
               (parseIntOr 10 (limit q)) (map (lookupOwner (Users d)) matched) = Inr vs"
    and r: "page_videos (data r) = vs"
    by (auto simp: getAllVideos_def split: sum.splits)
  have pub: "\<forall>v\<in>set matched. isPublished v" and sub: "set matched \<subseteq> set (Videos d)"
    using matchStage_Inr [OF matched] feedMatchConditions_published [OF m] by auto
  have "set vs \<subseteq> lookupOwner (Users d) ` set matched"
    using sortSkipLimit_subset [OF vs] by simp
  moreover have "video_doc (lookupOwner us v) = v" for us v
    by (simp add: lookupOwner_def Let_def)
  ultimately have "\<forall>x\<in>set vs. video_doc x \<in> set matched"
    by auto
  then show ?thesis
    using pub sub r assms(2) by blast
qed

theorem getAllVideos_only_published_witness:
  "getAllVideos env0 noQuery db0 =
     Inr \<lparr>statusCode = 200,
          data = \<lparr>page_videos = [feedItem1],
                  pagination = \<lparr>currentPage = 1, totalPages = 1, totalVideos = 1,
                                pg_limit = 10\<rparr>\<rparr>,
          message = ''Videos fetched successfully!''\<rparr>
   \<and> isPublished (video_doc feedItem1) \<and> video_doc feedItem1 \<in> set (Videos db0)
   \<and> \<not> isPublished draftVideo \<and> draftVideo \<in> set (Videos db0)"
proof -
  have h: "getAllVideos env0 noQuery db0 =
     Inr \<lparr>statusCode = 200,
          data = \<lparr>page_videos = [feedItem1],
                  pagination = \<lparr>currentPage = 1, totalPages = 1, totalVideos = 1,
                                pg_limit = 10\<rparr>\<rparr>,
          message = ''Videos fetched successfully!''\<rparr>"
    by (rule feed_db0)
  have "isPublished (video_doc feedItem1) \<and> video_doc feedItem1 \<in> set (Videos db0)"
    using getAllVideos_only_published [OF h, of feedItem1] by simp
  moreover have "\<not> isPublished draftVideo \<and> draftVideo \<in> set (Videos db0)"
    by (simp add: draftVideo_def db0_def)
  ultimately show ?thesis
    using h by simp
qed

subsection \<open>Pagination\<close>

lemma parse_big: "parseInt ''9007199254740993'' = Num 9007199254740992"
  by code_simp

lemma parse_small: "parseInt ''0'' = Num 0" "parseInt ''1'' = Num 1" "parseInt ''2'' = Num 2"
  by (simp_all add: parseInt_defs toNumber_exact)

lemma ceilDiv_zero: "ceilDiv 0 l = 0"
  by (simp add: ceilDiv_def)

lemma ceilDiv_pos: "0 < k \<Longrightarrow> 1 \<le> l \<Longrightarrow> 0 < ceilDiv k l"
proof -
  assume "0 < k" and "1 \<le> l"
  then have "0 < real_of_int k / real_of_int l"
    by simp
  then show ?thesis
    unfolding ceilDiv_def by linarith
qed

text \<open>What a listing returns once the paging parameters and the sort key are accepted.\<close>

lemma page_of_listing:
  assumes page: "parseIntOr 1 (page q) = Num p" "1 \<le> p" "p < 2 ^ 53"
    and limit: "parseIntOr 10 (limit q) = Num l" "1 \<le> l" "l < 2 ^ 53"
    and skip: "(p - 1) * l < 2 ^ 53"
    and order: "order (fst so) = Some le"
  shows "\<exists>ys. sortSkipLimit order so (skipOf q) (parseIntOr 10 (limit q)) xs = Inr ys
           \<and> int (length ys) = min l (max 0 (int (length xs) - (p - 1) * l))"
proof -
  have s: "skipOf q = Num ((p - 1) * l)"
    using page(1) limit(1) page(2,3) limit(2) skip by (rule skipOf_parsed)
  have k0: "0 \<le> (p - 1) * l"
    using page(2) limit(2) by simp
  have k1: "(p - 1) * l \<le> 2 ^ 63 - 1" and l1: "l \<le> 2 ^ 63 - 1"
    using skip limit(3) by simp_all
  show ?thesis
    unfolding s limit(1)
    using sortSkipLimit_length [of order so le "(p - 1) * l" l xs, OF order k0 k1 limit(2) l1] .
qed

text \<open>
  C5, as the code has it. When page and limit (1 and 10 when absent) parse to positive
  integers and page, limit and (page - 1) * limit lie below \<open>2^53\<close>, where JavaScript's
  numbers are exact, the skip is (page - 1) * limit; and a request that the database
  accepts (well-formed userId, accepted pattern and sort key) gets, from getAllVideos and
  from getChannelVideos, a successful response with totalPages =
  ceil(totalCount / limit), a slice of length min(limit, max(0, totalCount - skip)), and
  for totalCount = 0 totalPages = 0 and an empty list. Here totalCount is the number of
  videos that pass the handler's filter.
\<close>

theorem pagination_metadata:
  assumes page: "parseIntOr 1 (page q) = Num p" "1 \<le> p" "p < 2 ^ 53"
    and limit: "parseIntOr 10 (limit q) = Num l" "1 \<le> l" "l < 2 ^ 53"
    and skip: "(p - 1) * l < 2 ^ 53"
  shows "skipOf q = Num ((p - 1) * l)
    \<and> (\<forall>m matched le.
          feedMatchConditions e q = Inr m \<and> matchStage e m (Videos d) = Inr matched
          \<and> orderFeed e (fst (feedSortOptions q)) = Some le \<and> int (length matched) < 2 ^ 53
          \<longrightarrow> (\<exists>r. getAllVideos e q d = Inr r
                \<and> pagination (data r) =
                    \<lparr>currentPage = p,
                     totalPages = \<lceil>real_of_int (int (length matched)) / real_of_int l\<rceil>,
                     totalVideos = int (length matched), pg_limit = l\<rparr>
                \<and> int (length (page_videos (data r))) =
                    min l (max 0 (int (length matched) - (p - 1) * l))
                \<and> (if matched = []
                    then totalPages (pagination (data r)) = 0 \<and> page_videos (data r) = []
                    else 0 < totalPages (pagination (data r)))))
    \<and> (\<forall>owned le.
          owned = filter (\<lambda>v. v_owner v = user) (Videos d)
          \<and> orderChannel e (fst (channelSortOptions q)) = Some le \<and> int (length owned) < 2 ^ 53
          \<longrightarrow> (\<exists>r. getChannelVideos e user q d = Inr r
                \<and> pagination (data r) =
                    \<lparr>currentPage = p,
                     totalPages = \<lceil>real_of_int (int (length owned)) / real_of_int l\<rceil>,
                     totalVideos = int (length owned), pg_limit = l\<rparr>
                \<and> int (length (page_videos (data r))) =
                    min l (max 0 (int (length owned) - (p - 1) * l))
                \<and> (if owned = []
                    then totalPages (pagination (data r)) = 0 \<and> page_videos (data r) = []
                    else 0 < totalPages (pagination (data r)))))"
proof (intro conjI allI impI)
  show "skipOf q = Num ((p - 1) * l)"
    using page(1) limit(1) page(2,3) limit(2) skip by (rule skipOf_parsed)
next
  fix m matched le
  assume a: "feedMatchConditions e q = Inr m \<and> matchStage e m (Videos d) = Inr matched
      \<and> orderFeed e (fst (feedSortOptions q)) = Some le \<and> int (length matched) < 2 ^ 53"
  let ?n = "int (length matched)"
  obtain ys where ys: "sortSkipLimit (orderFeed e) (feedSortOptions q) (skipOf q)
        (parseIntOr 10 (limit q)) (map (lookupOwner (Users d)) matched) = Inr ys"
    and len: "int (length ys) = min l (max 0 (?n - (p - 1) * l))"
    using page_of_listing [OF page limit skip, of "orderFeed e" "feedSortOptions q" le
        "map (lookupOwner (Users d)) matched"] a by auto
  have r: "getAllVideos e q d =
      Inr \<lparr>statusCode = 200,
           data = \<lparr>page_videos = ys,
                   pagination = \<lparr>currentPage = p, totalPages = ceilDiv ?n l,
                                 totalVideos = ?n, pg_limit = l\<rparr>\<rparr>,
           message = ''Videos fetched successfully!''\<rparr>"
    using a ys page(1) limit(1)
    by (simp add: getAllVideos_def countDocuments_def paginationOf_parsed)
  have empty: "ys = []" if "matched = []"
    using that len page(2) limit(2) by simp
  have "0 < ceilDiv ?n l" if "matched \<noteq> []"
    using that limit(2) by (simp add: ceilDiv_pos)
  then show "\<exists>r. getAllVideos e q d = Inr r
      \<and> pagination (data r) =
          \<lparr>currentPage = p, totalPages = \<lceil>real_of_int ?n / real_of_int l\<rceil>,
           totalVideos = ?n, pg_limit = l\<rparr>
      \<and> int (length (page_videos (data r))) = min l (max 0 (?n - (p - 1) * l))
      \<and> (if matched = []
          then totalPages (pagination (data r)) = 0 \<and> page_videos (data r) = []
          else 0 < totalPages (pagination (data r)))"
    using r len empty ceilDiv_zero [of l] by (simp add: ceilDiv_def)
next
  fix owned le
  assume a: "owned = filter (\<lambda>v. v_owner v = user) (Videos d)
      \<and> orderChannel e (fst (channelSortOptions q)) = Some le \<and> int (length owned) < 2 ^ 53"
  let ?n = "int (length owned)"
  obtain zs where zs: "sortSkipLimit (orderChannel e) (channelSortOptions q) (skipOf q)
        (parseIntOr 10 (limit q)) (map (countLikes (Likes d)) owned) = Inr zs"
    and len: "int (length zs) = min l (max 0 (?n - (p - 1) * l))"
    using page_of_listing [OF page limit skip, of "orderChannel e" "channelSortOptions q" le
        "map (countLikes (Likes d)) owned"] a by auto
  have r: "getChannelVideos e user q d =
      Inr \<lparr>statusCode = 200,
           data = \<lparr>page_videos = zs,
                   pagination = \<lparr>currentPage = p, totalPages = ceilDiv ?n l,
                                 totalVideos = ?n, pg_limit = l\<rparr>\<rparr>,
           message = ''Channel videos fetched successfully''\<rparr>"
    using a zs page(1) limit(1)
    by (simp add: getChannelVideos_def Let_def paginationOf_parsed)
  have empty: "zs = []" if "owned = []"
    using that len page(2) limit(2) by simp
  have "0 < ceilDiv ?n l" if "owned \<noteq> []"
    using that limit(2) by (simp add: ceilDiv_pos)
  then show "\<exists>r. getChannelVideos e user q d = Inr r
      \<and> pagination (data r) =
          \<lparr>currentPage = p, totalPages = \<lceil>real_of_int ?n / real_of_int l\<rceil>,
           totalVideos = ?n, pg_limit = l\<rparr>
      \<and> int (length (page_videos (data r))) = min l (max 0 (?n - (p - 1) * l))
      \<and> (if owned = []
          then totalPages (pagination (data r)) = 0 \<and> page_videos (data r) = []
          else 0 < totalPages (pagination (data r)))"
    using r len empty ceilDiv_zero [of l] by (simp add: ceilDiv_def)
qed


theorem pagination_metadata_witness:
  "parseIntOr 1 (page pageQuery) = Num 2 \<and> parseIntOr 10 (limit pageQuery) = Num 1
   \<and> feedMatchConditions env0 pageQuery =
        Inr \<lparr>or_regex = None, owner_eq = None, isPublished_eq = Some True\<rparr>
   \<and> matchStage env0 \<lparr>or_regex = None, owner_eq = None, isPublished_eq = Some True\<rparr>
        (Videos db0) = Inr [publicVideo]
   \<and> orderFeed env0 (fst (feedSortOptions pageQuery)) \<noteq> None
   \<and> orderChannel env0 (fst (channelSortOptions pageQuery)) \<noteq> None
   \<and> filter (\<lambda>v. v_owner v = alice) (Videos db0) = [publicVideo, draftVideo]
   \<and> filter (\<lambda>v. v_owner v = bob) (Videos db0) = []
   \<and> skipOf pageQuery = Num 1
   \<and> (\<exists>r. getAllVideos env0 pageQuery db0 = Inr r
         \<and> pagination (data r) =
             \<lparr>currentPage = 2, totalPages = 1, totalVideos = 1, pg_limit = 1\<rparr>
         \<and> page_videos (data r) = [])
   \<and> (\<exists>r. getChannelVideos env0 alice pageQuery db0 = Inr r
         \<and> pagination (data r) =
             \<lparr>currentPage = 2, totalPages = 2, totalVideos = 2, pg_limit = 1\<rparr>
         \<and> length (page_videos (data r)) = 1)
   \<and> (\<exists>r. getChannelVideos env0 bob pageQuery db0 = Inr r
         \<and> pagination (data r) =
             \<lparr>currentPage = 2, totalPages = 0, totalVideos = 0, pg_limit = 1\<rparr>
         \<and> page_videos (data r) = [])"
proof -
  let ?m = "\<lparr>or_regex = None, owner_eq = None, isPublished_eq = Some True\<rparr>"
  let ?le = "\<lambda>a b. createdAt (video_doc a) \<le> createdAt (video_doc b)"
  let ?le' = "\<lambda>a b. createdAt (video_of a) \<le> createdAt (video_of b)"
  have p: "parseIntOr 1 (page pageQuery) = Num 2"
    by (simp add: parseIntOr_def pageQuery_def noQuery_def parse_small)
  have l: "parseIntOr 10 (limit pageQuery) = Num 1"
    by (simp add: parseIntOr_def pageQuery_def noQuery_def parse_small)
  have m: "feedMatchConditions env0 pageQuery = Inr ?m"
    by (simp add: feedMatchConditions_def pageQuery_def noQuery_def truthy_def)
  have matched: "matchStage env0 ?m (Videos db0) = Inr [publicVideo]"
    by (simp add: matchStage_def satisfies_def db0_def publicVideo_def draftVideo_def)
  have ord: "orderFeed env0 (fst (feedSortOptions pageQuery)) = Some ?le"
    by (simp add: env0_def)
  have ord': "orderChannel env0 (fst (channelSortOptions pageQuery)) = Some ?le'"
    by (simp add: env0_def)
  have mine: "filter (\<lambda>v. v_owner v = alice) (Videos db0) = [publicVideo, draftVideo]"
    by (simp add: db0_def publicVideo_def draftVideo_def)
  have none: "filter (\<lambda>v. v_owner v = bob) (Videos db0) = []"
    by (simp add: db0_def publicVideo_def draftVideo_def alice_def bob_def)
  have bounds: "(1::int) \<le> 2" "(2::int) < 2 ^ 53" "(1::int) \<le> 1" "(1::int) < 2 ^ 53"
    "((2::int) - 1) * 1 < 2 ^ 53"
    by simp_all
  have c1: "\<lceil>(1::real) / 1\<rceil> = 1" and c2: "\<lceil>(2::real) / 1\<rceil> = 2"
    by simp_all
  note t = pagination_metadata [OF p bounds(1,2) l bounds(3,4,5)]
  have s: "skipOf pageQuery = Num 1"
    using t [of env0 db0 alice, THEN conjunct1] by simp
  have f: "\<exists>r. getAllVideos env0 pageQuery db0 = Inr r
         \<and> pagination (data r) =
             \<lparr>currentPage = 2, totalPages = 1, totalVideos = 1, pg_limit = 1\<rparr>
         \<and> page_videos (data r) = []"
    using t [of env0 db0 alice, THEN conjunct2, THEN conjunct1, rule_format,
        of ?m "[publicVideo]" ?le] m matched ord c1
    by auto
  have a: "\<exists>r. getChannelVideos env0 alice pageQuery db0 = Inr r
         \<and> pagination (data r) =
             \<lparr>currentPage = 2, totalPages = 2, totalVideos = 2, pg_limit = 1\<rparr>
         \<and> length (page_videos (data r)) = 1"
    using t [of env0 db0 alice, THEN conjunct2, THEN conjunct2, rule_format,
        of "[publicVideo, draftVideo]" ?le'] mine ord' c2
    by auto
  have b: "\<exists>r. getChannelVideos env0 bob pageQuery db0 = Inr r
         \<and> pagination (data r) =
             \<lparr>currentPage = 2, totalPages = 0, totalVideos = 0, pg_limit = 1\<rparr>
         \<and> page_videos (data r) = []"
    using t [of env0 db0 bob, THEN conjunct2, THEN conjunct2, rule_format, of "[]" ?le']
      none ord'
    by auto
  show ?thesis
    using p l m matched ord ord' mine none s f a b by simp
qed

text \<open>
  C5, as it is stated, fails on the example data. With page 0 the skip is negative and
  the database rejects the pipeline, so both listings answer with an error although no
  video is stored; with limit 0 the database rejects the limit. With page
  9007199254740993 and limit 1, \<^verbatim>\<open>parseInt\<close> rounds the page to \<open>2^53\<close> and the
  skip is \<open>2^53 - 1\<close>, which is not (page - 1) * limit.
\<close>

theorem pagination_metadata_counterexample:
  "Videos dbNoVideos = []
   \<and> page pageZeroQuery = Some ''0'' \<and> limit pageZeroQuery = None
   \<and> getAllVideos env0 pageZeroQuery dbNoVideos = Inl (Thrown ''MongoServerError'')
   \<and> getChannelVideos env0 alice pageZeroQuery dbNoVideos = Inl (Thrown ''MongoServerError'')
   \<and> limit limitZeroQuery = Some ''0''
   \<and> getAllVideos env0 limitZeroQuery db0 = Inl (Thrown ''MongoServerError'')
   \<and> page bigPageQuery = Some ''9007199254740993'' \<and> limit bigPageQuery = Some ''1''
   \<and> digitsValue 10 0 ''9007199254740993'' = 9007199254740993
   \<and> parseIntOr 1 (page bigPageQuery) = Num 9007199254740992
   \<and> skipOf bigPageQuery = Num 9007199254740991
   \<and> (9007199254740993 - 1) * 1 \<noteq> (9007199254740991 :: int)"
proof -
  let ?m = "\<lparr>or_regex = None, owner_eq = None, isPublished_eq = Some True\<rparr>"
  have z: "skipOf pageZeroQuery = Num (- 10)"
    by (simp add: skipOf_def pageZeroQuery_def noQuery_def parseIntOr_def parse_small
        minusOne_def multiply_def toNumber_exact)
  have mz: "feedMatchConditions env0 pageZeroQuery = Inr ?m"
    by (simp add: feedMatchConditions_def pageZeroQuery_def noQuery_def truthy_def)
  have nz: "matchStage env0 ?m (Videos dbNoVideos) = Inr []"
    by (simp add: matchStage_def dbNoVideos_def)
  have oz: "orderFeed env0 f \<noteq> None" "orderChannel env0 f \<noteq> None" for f
    by (simp_all add: env0_def)
  have rz: "sortSkipLimit order so (Num (- 10)) lmt xs = Inl (Thrown ''MongoServerError'')"
    if "order (fst so) \<noteq> None" for order :: "string \<Rightarrow> ('a \<Rightarrow> 'a \<Rightarrow> bool) option"
      and so lmt and xs :: "'a list"
    using that by (auto simp: sortSkipLimit_def sortStage_def skipStage_def)
  have e1: "getAllVideos env0 pageZeroQuery dbNoVideos = Inl (Thrown ''MongoServerError'')"
    by (simp add: getAllVideos_def mz nz z rz [OF oz(1)])
  have e2: "getChannelVideos env0 alice pageZeroQuery dbNoVideos =
      Inl (Thrown ''MongoServerError'')"
    by (simp add: getChannelVideos_def z rz [OF oz(2)])
  have lz: "parseIntOr 10 (limit limitZeroQuery) = Num 0"
    by (simp add: parseIntOr_def limitZeroQuery_def noQuery_def parse_small)
  have ml: "feedMatchConditions env0 limitZeroQuery = Inr ?m"
    by (simp add: feedMatchConditions_def limitZeroQuery_def noQuery_def truthy_def)
  have nl: "matchStage env0 ?m (Videos db0) = Inr [publicVideo]"
    by (simp add: matchStage_def satisfies_def db0_def publicVideo_def draftVideo_def)
  have rl: "sortSkipLimit order so skp (Num 0) xs = Inl (Thrown ''MongoServerError'')"
    for order :: "string \<Rightarrow> ('a \<Rightarrow> 'a \<Rightarrow> bool) option" and so skp and xs :: "'a list"
    by (auto simp: sortSkipLimit_def sortStage_def skipStage_def limitStage_def
        split: sum.splits option.splits number.splits if_splits)
  have e3: "getAllVideos env0 limitZeroQuery db0 = Inl (Thrown ''MongoServerError'')"
    by (simp add: getAllVideos_def ml nl lz rl)
  have d: "digitsValue 10 0 ''9007199254740993'' = 9007199254740993"
    by (simp add: digitValue_def)
  have pb: "parseIntOr 1 (page bigPageQuery) = Num 9007199254740992"
    by (simp add: parseIntOr_def bigPageQuery_def noQuery_def parse_big)
  have sb: "skipOf bigPageQuery = Num 9007199254740991"
    by (simp add: skipOf_def bigPageQuery_def noQuery_def parseIntOr_def parse_big parse_small
        minusOne_def multiply_def toNumber_exact)
  have q: "Videos dbNoVideos = []" "page pageZeroQuery = Some ''0''"
    "limit pageZeroQuery = None" "limit limitZeroQuery = Some ''0''"
    "page bigPageQuery = Some ''9007199254740993''" "limit bigPageQuery = Some ''1''"
    by (simp_all add: dbNoVideos_def pageZeroQuery_def limitZeroQuery_def bigPageQuery_def
        noQuery_def)
  show ?thesis
    using e1 e2 e3 d pb sb q by simp
qed

subsection \<open>Effect of the handlers on the video collection\<close>

lemma updateVideoById_at_found:
  "findVideoById vs i = Some v \<Longrightarrow> updateVideoById i f vs = updateVideoById i (\<lambda>_. f v) vs"
  by (induction vs) (auto simp: findVideoById_def split: if_splits)

lemma findVideoById_append:
  "findVideoById (vs @ [w]) i =
     (case findVideoById vs i of Some v \<Rightarrow> Some v
      | None \<Rightarrow> if v_id w = i then Some w else None)"
  by (induction vs) (auto simp: findVideoById_def)

lemma findVideoById_None: "i \<notin> v_id ` set vs \<Longrightarrow> findVideoById vs i = None"
  by (induction vs) (auto simp: findVideoById_def)

lemma findVideoById_delete:
  "distinct (map v_id vs) \<Longrightarrow>
   findVideoById (deleteVideoById j vs) i = (if i = j then None else findVideoById vs i)"
  by (induction vs) (auto simp: findVideoById_def findVideoById_None [unfolded findVideoById_def])

lemma publishAVideo_videos:
  "Videos (snd (publishAVideo e user ttl dsc vp tp blank d)) = Videos d
   \<or> (\<exists>w. Videos (snd (publishAVideo e user ttl dsc vp tp blank d)) = Videos d @ [w])"
  by (auto simp: publishAVideo_def createVideo_def split: option.splits sum.splits prod.splits if_splits)

lemma update_views_le:
  assumes "\<forall>w. v_id (f w) = v_id w \<and> views w \<le> views (f w)"
    and "findVideoById vs i = Some v" and "findVideoById (updateVideoById j f vs) i = Some v'"
  shows "views v \<le> views v'"
proof -
  have "findVideoById (updateVideoById j f vs) i =
      (if i = j then map_option f (findVideoById vs j) else findVideoById vs i)"
    using assms(1) by (simp add: findVideoById_update)
  then show ?thesis
    using assms by (auto split: if_splits)
qed

lemma setIfTruthy_video_keeps:
  "v_id (setIfTruthy x (\<lambda>s w. w\<lparr>description := s\<rparr>) w) = v_id w"
  "views (setIfTruthy x (\<lambda>s w. w\<lparr>description := s\<rparr>) w) = views w"
  "v_id (setIfTruthy x (\<lambda>s w. w\<lparr>title := s\<rparr>) w) = v_id w"
  "views (setIfTruthy x (\<lambda>s w. w\<lparr>title := s\<rparr>) w) = views w"
  by (simp_all add: setIfTruthy_def split: option.splits)

lemma updateVideo_views:
  assumes before: "findVideoById (Videos d) i = Some v"
    and after: "findVideoById (Videos (snd (updateVideo e user videoId ttl dsc path d))) i = Some v'"
  shows "views v \<le> views v'"
proof -
  let ?u = "setIfTruthy dsc (\<lambda>s w. w\<lparr>description := s\<rparr>) \<circ> setIfTruthy ttl (\<lambda>s w. w\<lparr>title := s\<rparr>)"
  let ?r = "updateVideo e user videoId ttl dsc path d"
  have u: "\<forall>w. v_id (?u w) = v_id w \<and> views w \<le> views (?u w)"
    by (simp add: setIfTruthy_video_keeps)
  have t: "\<forall>w. v_id ((?u w)\<lparr>thumbnail := url\<rparr>) = v_id w
      \<and> views w \<le> views ((?u w)\<lparr>thumbnail := url\<rparr>)" for url
    by (simp add: setIfTruthy_video_keeps)
  consider (same) "snd ?r = d"
    | (fields) "snd ?r = d\<lparr>Videos := updateVideoById videoId ?u (Videos d)\<rparr>"
    | (thumb) url where
        "snd ?r = d\<lparr>Videos := updateVideoById videoId (\<lambda>w. (?u w)\<lparr>thumbnail := url\<rparr>) (Videos d)\<rparr>"
  proof (cases "findVideoById (Videos d) videoId")
    case None
    then have "snd ?r = d" by (simp add: updateVideo_def)
    then show ?thesis by (rule same)
  next
    case (Some v)
    show ?thesis
    proof (cases path)
      case None
      then have "snd ?r = d \<or> snd ?r = d\<lparr>Videos := updateVideoById videoId ?u (Videos d)\<rparr>"
        using Some by (simp add: updateVideo_def Let_def)
      then show ?thesis using same fields by blast
    next
      case (Some pth)
      show ?thesis
      proof (cases "uploadOnCloudinary e pth ''thumbnails''")
        case (Uploaded url dur)
        then have "snd ?r = d
            \<or> snd ?r = d\<lparr>Videos := updateVideoById videoId (\<lambda>w. (?u w)\<lparr>thumbnail := url\<rparr>) (Videos d)\<rparr>"
          using Some \<open>findVideoById (Videos d) videoId = Some v\<close>
          by (simp add: updateVideo_def Let_def)
        then show ?thesis using same thumb by blast
      next
        case UploadNull
        then have "snd ?r = d"
          using Some \<open>findVideoById (Videos d) videoId = Some v\<close>
          by (simp add: updateVideo_def Let_def)
        then show ?thesis by (rule same)
      next
        case (UploadThrows m)
        then have "snd ?r = d"
          using Some \<open>findVideoById (Videos d) videoId = Some v\<close>
          by (simp add: updateVideo_def Let_def)
        then show ?thesis by (rule same)
      qed
    qed
  qed
  then show ?thesis
  proof cases
    case same
    then show ?thesis using before after by simp
  next
    case fields
    then have "findVideoById (updateVideoById videoId ?u (Videos d)) i = Some v'"
      using after by simp
    then show ?thesis using u before by (rule update_views_le [rotated 2])
  next
    case (thumb url)
    then have "findVideoById
        (updateVideoById videoId (\<lambda>w. (?u w)\<lparr>thumbnail := url\<rparr>) (Videos d)) i = Some v'"
      using after by simp
    then show ?thesis using t [of url] before by (rule update_views_le [rotated 2])
  qed
qed

lemma deleteVideo_videos:
  "Videos (snd (deleteVideo e user videoId d)) = Videos d
   \<or> Videos (snd (deleteVideo e user videoId d)) = deleteVideoById videoId (Videos d)"
  by (simp add: deleteVideo_def split: option.splits)

lemma togglePublishStatus_videos:
  "Videos (snd (togglePublishStatus e user videoId d)) = Videos d
   \<or> Videos (snd (togglePublishStatus e user videoId d)) =
       updateVideoById videoId (\<lambda>w. w\<lparr>isPublished := \<not> isPublished w\<rparr>) (Videos d)"
  by (auto simp: togglePublishStatus_def Let_def split: option.splits
      dest: updateVideoById_at_found [where f = "\<lambda>w. w\<lparr>isPublished := \<not> isPublished w\<rparr>"])

lemma getVideoById_videos:
  "Videos (snd (getVideoById e videoId d)) = Videos d
   \<or> Videos (snd (getVideoById e videoId d)) =
       updateVideoById videoId (\<lambda>w. w\<lparr>views := views w + 1\<rparr>) (Videos d)"
  by (simp add: getVideoById_def split: list.splits)

lemma playlist_handlers_videos:
  "Videos (snd (createPlaylist e user nm dsc blank d)) = Videos d"
  "Videos (snd (addVideoToPlaylist e playlistId videoId d)) = Videos d"
  "Videos (snd (removeVideoFromPlaylist e playlistId videoId d)) = Videos d"
  "Videos (snd (deletePlaylist e user playlistId d)) = Videos d"
  "Videos (snd (updatePlaylist e user playlistId nm dsc d)) = Videos d"
  by (simp_all add: createPlaylist_def createPlaylistDoc_def addVideoToPlaylist_def
      removeVideoFromPlaylist_def deletePlaylist_def updatePlaylist_def Let_def
      split: option.splits)


lemma publishAVideo_views:
  assumes "findVideoById (Videos d) i = Some v"
    and "findVideoById (Videos (snd (publishAVideo e user ttl dsc vp tp blank d))) i = Some v'"
  shows "views v \<le> views v'"
  using publishAVideo_videos [of e user ttl dsc vp tp blank d] assms
  by (auto simp: findVideoById_append)

lemma getVideoById_views:
  assumes "findVideoById (Videos d) i = Some v"
    and "findVideoById (Videos (snd (getVideoById e videoId d))) i = Some v'"
  shows "views v \<le> views v'"
proof -
  have f: "\<forall>w. v_id (w\<lparr>views := views w + 1\<rparr>) = v_id w \<and> views w \<le> views (w\<lparr>views := views w + 1\<rparr>)"
    by simp
  from getVideoById_videos [of e videoId d] show ?thesis
  proof
    assume "Videos (snd (getVideoById e videoId d)) = Videos d"
    then show ?thesis using assms by simp
  next
    assume "Videos (snd (getVideoById e videoId d)) =
        updateVideoById videoId (\<lambda>w. w\<lparr>views := views w + 1\<rparr>) (Videos d)"
    then have "findVideoById (updateVideoById videoId (\<lambda>w. w\<lparr>views := views w + 1\<rparr>) (Videos d)) i
        = Some v'"
      using assms(2) by simp
    then show ?thesis using f assms(1) by (rule update_views_le [rotated 2])
  qed
qed

lemma togglePublishStatus_views:
  assumes "findVideoById (Videos d) i = Some v"
    and "findVideoById (Videos (snd (togglePublishStatus e user videoId d))) i = Some v'"
  shows "views v \<le> views v'"
proof -
  have f: "\<forall>w. v_id (w\<lparr>isPublished := \<not> isPublished w\<rparr>) = v_id w
      \<and> views w \<le> views (w\<lparr>isPublished := \<not> isPublished w\<rparr>)"
    by simp
  from togglePublishStatus_videos [of e user videoId d] show ?thesis
  proof
    assume "Videos (snd (togglePublishStatus e user videoId d)) = Videos d"
    then show ?thesis using assms by simp
  next
    assume "Videos (snd (togglePublishStatus e user videoId d)) =
        updateVideoById videoId (\<lambda>w. w\<lparr>isPublished := \<not> isPublished w\<rparr>) (Videos d)"
    then have "findVideoById
        (updateVideoById videoId (\<lambda>w. w\<lparr>isPublished := \<not> isPublished w\<rparr>) (Videos d)) i = Some v'"
      using assms(2) by simp
    then show ?thesis using f assms(1) by (rule update_views_le [rotated 2])
  qed
qed

lemma deleteVideo_views:
  assumes "distinct (map v_id (Videos d))" and "findVideoById (Videos d) i = Some v"
    and "findVideoById (Videos (snd (deleteVideo e user videoId d))) i = Some v'"
  shows "views v \<le> views v'"
  using deleteVideo_videos [of e user videoId d] assms
  by (auto simp: findVideoById_delete split: if_splits)

lemma step_views:
  assumes dist: "distinct (map v_id (Videos d))"
    and before: "findVideoById (Videos d) i = Some v"
    and after: "findVideoById (Videos (step e user op d)) i = Some v'"
  shows "views v \<le> views v'"
proof (cases op)
  case (PublishAVideo ttl dsc vp tp blank)
  then show ?thesis
    using publishAVideo_views [OF before] after by simp
next
  case (GetVideoById videoId)
  then show ?thesis
    using getVideoById_views [OF before] after by simp
next
  case (UpdateVideo videoId ttl dsc path)
  then show ?thesis
    using updateVideo_views [OF before] after by simp
next
  case (DeleteVideo videoId)
  then show ?thesis
    using deleteVideo_views [OF dist before] after by simp
next
  case (TogglePublishStatus videoId)
  then show ?thesis
    using togglePublishStatus_views [OF before] after by simp
qed (use before after in \<open>simp_all add: playlist_handlers_videos\<close>)


lemma find_filter_hd: "find P xs = Some x \<Longrightarrow> \<exists>rest. filter P xs = x # rest"
  by (induction xs) (auto split: if_splits)

lemma getVideoById_found:
  assumes "isValidObjectId e videoId" and "findVideoById (Videos d) videoId = Some v"
  shows "getVideoById e videoId d =
           (Inr \<lparr>statusCode = 200, data = lookupOwner (Users d) v,
                 message = ''Video fetched successfully!''\<rparr>,
            d\<lparr>Videos := updateVideoById videoId (\<lambda>w. w\<lparr>views := views w + 1\<rparr>) (Videos d)\<rparr>)"
proof -
  obtain rest where "filter (\<lambda>w. v_id w = videoId) (Videos d) = v # rest"
    using assms(2) find_filter_hd unfolding findVideoById_def by fastforce
  then show ?thesis
    using assms(1) by (simp add: getVideoById_def)
qed

lemma getVideoById_invalid:
  "\<not> isValidObjectId e videoId \<Longrightarrow> getVideoById e videoId d = (Inl (ApiError 400 ''Invalid video ID''), d)"
  by (simp add: getVideoById_def)

subsection \<open>The view counter\<close>

text \<open>
  C7. For a stored video, every successful getVideoById call on its identifier leaves the
  stored video with its views increased by exactly 1; and no request to any handler lowers
  the view counter of a video that is stored before and after the request (identifiers
  being unique in the collection).
\<close>

theorem view_counter_monotone:
  assumes "distinct (map v_id (Videos d))" and "findVideoById (Videos d) i = Some v"
  shows "(\<forall>r. fst (getVideoById e i d) = Inr r \<longrightarrow>
            findVideoById (Videos (snd (getVideoById e i d))) i = Some (v\<lparr>views := views v + 1\<rparr>))
       \<and> (\<forall>user op v'. findVideoById (Videos (step e user op d)) i = Some v' \<longrightarrow>
            views v \<le> views v')"
proof (intro conjI allI impI)
  fix r
  assume ok: "fst (getVideoById e i d) = Inr r"
  have valid: "isValidObjectId e i"
  proof (rule ccontr)
    assume "\<not> isValidObjectId e i"
    then show False using ok by (simp add: getVideoById_invalid)
  qed
  show "findVideoById (Videos (snd (getVideoById e i d))) i = Some (v\<lparr>views := views v + 1\<rparr>)"
    using assms(2) by (simp add: getVideoById_found [OF valid assms(2)] findVideoById_update)
next
  fix user op v'
  assume "findVideoById (Videos (step e user op d)) i = Some v'"
  with assms show "views v \<le> views v'"
    by (rule step_views)
qed

lemma db0_distinct: "distinct (map v_id (Videos db0))"
  by (simp add: db0_def publicVideo_def draftVideo_def video1_def video2_def)

lemma db0_video1: "findVideoById (Videos db0) video1 = Some publicVideo"
  by (simp add: findVideoById_def db0_def publicVideo_def)

theorem view_counter_monotone_witness:
  "distinct (map v_id (Videos db0)) \<and> findVideoById (Videos db0) video1 = Some publicVideo
   \<and> fst (getVideoById env0 video1 db0) =
       Inr \<lparr>statusCode = 200, data = feedItem1, message = ''Video fetched successfully!''\<rparr>
   \<and> findVideoById (Videos (snd (getVideoById env0 video1 db0))) video1 =
       Some (publicVideo\<lparr>views := 6\<rparr>)
   \<and> findVideoById (Videos (step env0 bob (GetVideoById video1) db0)) video1 =
       Some (publicVideo\<lparr>views := 6\<rparr>)
   \<and> views publicVideo \<le> views (publicVideo\<lparr>views := 6\<rparr>)"
proof -
  have valid: "isValidObjectId env0 video1"
    by (simp add: env0_def video1_def)
  have item: "lookupOwner (Users db0) publicVideo = feedItem1"
    by (simp add: lookupOwner_def userDoc_def project_def db0_def userAlice_def publicVideo_def
        feedItem1_def)
  have ok: "fst (getVideoById env0 video1 db0) =
       Inr \<lparr>statusCode = 200, data = feedItem1, message = ''Video fetched successfully!''\<rparr>"
    by (simp add: getVideoById_found [OF valid db0_video1] item)
  have v5: "views publicVideo = 5"
    by (simp add: publicVideo_def)
  note t = view_counter_monotone [OF db0_distinct db0_video1, of env0]
  have a: "findVideoById (Videos (snd (getVideoById env0 video1 db0))) video1 =
       Some (publicVideo\<lparr>views := 6\<rparr>)"
    using t [THEN conjunct1, rule_format, OF ok] v5 by simp
  then have b: "findVideoById (Videos (step env0 bob (GetVideoById video1) db0)) video1 =
       Some (publicVideo\<lparr>views := 6\<rparr>)"
    by simp
  have c: "views publicVideo \<le> views (publicVideo\<lparr>views := 6\<rparr>)"
    using t [THEN conjunct2, rule_format, OF b] .
  show ?thesis
    using db0_distinct db0_video1 ok a b c by simp
qed

subsection \<open>Fetching by identifier\<close>

text \<open>
  C10. For a well-formed identifier of a stored video, getVideoById returns that video
  (with its owner projection) and stores it with views increased by 1, whatever its
  isPublished flag is. The handler reads nothing of the caller, so the outcome is the
  same for every caller.
\<close>

theorem getVideoById_any_publish_state:
  assumes "isValidObjectId e videoId" and "findVideoById (Videos d) videoId = Some v"
  shows "getVideoById e videoId d =
           (Inr \<lparr>statusCode = 200, data = lookupOwner (Users d) v,
                 message = ''Video fetched successfully!''\<rparr>,
            d\<lparr>Videos := updateVideoById videoId (\<lambda>w. w\<lparr>views := views w + 1\<rparr>) (Videos d)\<rparr>)
         \<and> video_doc (lookupOwner (Users d) v) = v
         \<and> findVideoById (Videos (snd (getVideoById e videoId d))) videoId =
             Some (v\<lparr>views := views v + 1\<rparr>)
         \<and> (\<forall>user. step e user (GetVideoById videoId) d = snd (getVideoById e videoId d))"
proof -
  have r: "getVideoById e videoId d =
           (Inr \<lparr>statusCode = 200, data = lookupOwner (Users d) v,
                 message = ''Video fetched successfully!''\<rparr>,
            d\<lparr>Videos := updateVideoById videoId (\<lambda>w. w\<lparr>views := views w + 1\<rparr>) (Videos d)\<rparr>)"
    using assms by (rule getVideoById_found)
  have "findVideoById (updateVideoById videoId (\<lambda>w. w\<lparr>views := views w + 1\<rparr>) (Videos d)) videoId =
          Some (v\<lparr>views := views v + 1\<rparr>)"
    using assms(2) by (simp add: findVideoById_update)
  then show ?thesis
    using r by (simp add: lookupOwner_def Let_def)
qed

theorem getVideoById_any_publish_state_witness:
  "isValidObjectId env0 video2 \<and> findVideoById (Videos db0) video2 = Some draftVideo
   \<and> \<not> isPublished draftVideo
   \<and> fst (getVideoById env0 video2 db0) =
       Inr \<lparr>statusCode = 200, data = \<lparr>video_doc = draftVideo, owner = owner feedItem1\<rparr>,
            message = ''Video fetched successfully!''\<rparr>
   \<and> findVideoById (Videos (snd (getVideoById env0 video2 db0))) video2 =
       Some (draftVideo\<lparr>views := 1\<rparr>)"
proof -
  have h1: "isValidObjectId env0 video2"
    by (simp add: env0_def video2_def)
  have h2: "findVideoById (Videos db0) video2 = Some draftVideo"
    by (simp add: findVideoById_def db0_def publicVideo_def draftVideo_def video1_def video2_def)
  have h3: "\<not> isPublished draftVideo" "views draftVideo = 0"
    by (simp_all add: draftVideo_def)
  have h4: "lookupOwner (Users db0) draftVideo = \<lparr>video_doc = draftVideo, owner = owner feedItem1\<rparr>"
    by (simp add: lookupOwner_def userDoc_def project_def db0_def userAlice_def draftVideo_def
        feedItem1_def)
  note t = getVideoById_any_publish_state [OF h1 h2]
  have a: "fst (getVideoById env0 video2 db0) =
       Inr \<lparr>statusCode = 200, data = \<lparr>video_doc = draftVideo, owner = owner feedItem1\<rparr>,
            message = ''Video fetched successfully!''\<rparr>"
    using t [THEN conjunct1] h4 by simp
  have b: "findVideoById (Videos (snd (getVideoById env0 video2 db0))) video2 =
       Some (draftVideo\<lparr>views := 1\<rparr>)"
    using t [THEN conjunct2, THEN conjunct2, THEN conjunct1] h3(2) by simp
  show ?thesis
    using a b h1 h2 h3(1) by simp
qed

lemma findPlaylistById_id: "findPlaylistById ps i = Some p \<Longrightarrow> p_id p = i"
  by (induction ps) (auto simp: findPlaylistById_def split: if_splits)

subsection \<open>Playlist membership\<close>

text \<open>
  What the two membership checks decide, for an existing playlist and well-formed
  identifiers: the add is refused when the string of the request is in the list, the
  removal when it is not. When every stored reference is canonical, a request whose
  video is not in the playlist, however it is spelled, is among the refused removals.
\<close>

lemma playlist_membership_checks:
  assumes "isValidObjectId e playlistId" and "isValidObjectId e videoId"
    and "findPlaylistById (Playlists d) playlistId = Some p"
  shows "videoId \<in> set (videos p) \<Longrightarrow>
           addVideoToPlaylist e playlistId videoId d =
             (Inl (ApiError 400 ''Video already in playlist''), d)"
    and "videoId \<notin> set (videos p) \<Longrightarrow>
           removeVideoFromPlaylist e playlistId videoId d =
             (Inl (ApiError 400 ''Video not found in playlist''), d)"
    and "\<forall>x\<in>set (videos p). castObjectId e x = x \<Longrightarrow>
           castObjectId e videoId \<notin> set (videos p) \<Longrightarrow>
           removeVideoFromPlaylist e playlistId videoId d =
             (Inl (ApiError 400 ''Video not found in playlist''), d)"
  using assms
  by (auto simp: addVideoToPlaylist_def removeVideoFromPlaylist_def)

text \<open>
  C3, on the example data. The playlist holds \<open>video1\<close>. A request that spells that
  identifier in upper case is well-formed and passes the membership test of line 73,
  which compares strings; line 76 then stores the ObjectId the identifier is cast to.
  The answer is 200 and the playlist holds the video twice, where the canonical spelling
  of the same identifier is refused with 400 "Video already in playlist".
\<close>

theorem addVideoToPlaylist_stores_member_twice:
  "findPlaylistById (Playlists db0) playlist1 = Some favorites
   \<and> videos favorites = [video1]
   \<and> isValidObjectId env0 video1Upper \<and> castObjectId env0 video1Upper = video1
   \<and> addVideoToPlaylist env0 playlist1 video1Upper db0 =
       (Inr \<lparr>statusCode = 200, data = favorites\<lparr>videos := [video1, video1]\<rparr>,
             message = ''Video added to playlist successfully''\<rparr>,
        db0\<lparr>Playlists := [favorites\<lparr>videos := [video1, video1]\<rparr>]\<rparr>)
   \<and> addVideoToPlaylist env0 playlist1 video1 db0 =
       (Inl (ApiError 400 ''Video already in playlist''), db0)"
proof -
  have ids: "isValidObjectId env0 playlist1" "isValidObjectId env0 video1"
    "isValidObjectId env0 video1Upper"
    by (simp_all add: env0_def playlist1_def video1_def video1Upper_def)
  have f: "findPlaylistById (Playlists db0) playlist1 = Some favorites"
    by (simp add: findPlaylistById_def db0_def favorites_def)
  have o: "p_id favorites = playlist1" "videos favorites = [video1]"
    by (simp_all add: favorites_def)
  have ne: "video1Upper \<noteq> video1"
    by (simp add: video1_def video1Upper_def)
  have cast: "castObjectId env0 video1Upper = video1"
    by (simp add: env0_def video1_def video1Upper_def lowerHex_def)
  have pl: "Playlists db0 = [favorites]"
    by (simp add: db0_def)
  have a: "addVideoToPlaylist env0 playlist1 video1Upper db0 =
       (Inr \<lparr>statusCode = 200, data = favorites\<lparr>videos := [video1, video1]\<rparr>,
             message = ''Video added to playlist successfully''\<rparr>,
        db0\<lparr>Playlists := [favorites\<lparr>videos := [video1, video1]\<rparr>]\<rparr>)"
    using ids f o ne cast by (simp add: addVideoToPlaylist_def pl Let_def)
  have b: "addVideoToPlaylist env0 playlist1 video1 db0 =
       (Inl (ApiError 400 ''Video already in playlist''), db0)"
    using ids f o by (simp add: addVideoToPlaylist_def)
  show ?thesis
    using f o(2) ids(3) cast a b by simp
qed

theorem addVideoToPlaylist_stores_member_twice_witness:
  "fst (addVideoToPlaylist env0 playlist1 video1Upper db0) \<noteq>
     Inl (ApiError 400 ''Video already in playlist'')
   \<and> castObjectId env0 video1Upper \<in> set (videos favorites)
   \<and> map videos (Playlists (snd (addVideoToPlaylist env0 playlist1 video1Upper db0))) =
       [[video1, video1]]"
  using addVideoToPlaylist_stores_member_twice by simp

subsection \<open>Channel statistics\<close>

text \<open>
  C8. For a channel that owns no video and has no subscriber (so that no like is on a
  video of its own), getChannelStats succeeds and returns totalSubscribers = 0,
  totalVideos = 0, totalViews = 0 and totalLikes = 0: the empty result of each
  aggregation is read as zero.
\<close>

theorem getChannelStats_empty_channel:
  assumes "filter (\<lambda>v. v_owner v = user) (Videos d) = []"
    and "filter (\<lambda>s. channel s = user) (Subscriptions d) = []"
  shows "getChannelStats user d =
           Inr \<lparr>statusCode = 200,
                data = \<lparr>totalSubscribers = 0, stats_totalVideos = 0, totalViews = 0,
                        totalLikes = 0\<rparr>,
                message = ''Channel stats fetched successfully''\<rparr>"
proof -
  have no: "\<forall>v\<in>set (Videos d). v_owner v \<noteq> user"
    using assms(1) by (simp add: filter_empty_conv)
  have "filter (\<lambda>(l, v). v_owner v = user)
          (concat (map (\<lambda>l. map (\<lambda>v. (l, v)) (filter (\<lambda>v. l_video l = Some (v_id v)) (Videos d)))
             (Likes d))) = []"
    using no by (auto simp: filter_empty_conv)
  then have likes: "groupLikesStats user d = []"
    by (simp add: groupLikesStats_def)
  show ?thesis
    using assms likes by (simp add: getChannelStats_def groupVideoStats_def orZero_def)
qed

theorem getChannelStats_empty_channel_witness:
  "filter (\<lambda>v. v_owner v = bob) (Videos db1) = []
   \<and> filter (\<lambda>s. channel s = bob) (Subscriptions db1) = []
   \<and> Likes db1 \<noteq> [] \<and> Subscriptions db1 \<noteq> [] \<and> Videos db1 \<noteq> []
   \<and> getChannelStats bob db1 =
        Inr \<lparr>statusCode = 200,
             data = \<lparr>totalSubscribers = 0, stats_totalVideos = 0, totalViews = 0, totalLikes = 0\<rparr>,
             message = ''Channel stats fetched successfully''\<rparr>"
proof -
  have v: "filter (\<lambda>v. v_owner v = bob) (Videos db1) = []"
    by (simp add: db1_def db0_def publicVideo_def draftVideo_def alice_def bob_def)
  have s: "filter (\<lambda>s. channel s = bob) (Subscriptions db1) = []"
    by (simp add: db1_def db0_def alice_def bob_def)
  have "Likes db1 \<noteq> [] \<and> Subscriptions db1 \<noteq> [] \<and> Videos db1 \<noteq> []"
    by (simp add: db1_def db0_def)
  then show ?thesis
    using getChannelStats_empty_channel [OF v s] v s by simp
qed

subsection \<open>The owner projection\<close>

lemma lookupOwner_video: "video_doc (lookupOwner us v) = v"
  by (simp add: lookupOwner_def Let_def)

lemma lookupOwner_fields:
  "if v_owner v \<in> u_id ` set us
   then owner (lookupOwner us v) \<noteq> None
        \<and> ownerFields (lookupOwner us v) = [''_id'', ''username'', ''fullName'', ''avatar'']
   else owner (lookupOwner us v) = None"
proof (cases "filter (\<lambda>u. u_id u = v_owner v) us")
  case Nil
  then have "v_owner v \<notin> u_id ` set us"
    by (auto simp: filter_empty_conv)
  then show ?thesis
    using Nil by (simp add: lookupOwner_def)
next
  case (Cons u rest)
  then have "u \<in> set (filter (\<lambda>u. u_id u = v_owner v) us)"
    by simp
  then have "v_owner v \<in> u_id ` set us"
    by force
  then show ?thesis
    using Cons by (simp add: lookupOwner_def ownerFields_def userDoc_def project_def)
qed

lemma getAllVideos_items:
  assumes "getAllVideos e q d = Inr r" and "item \<in> set (page_videos (data r))"
  shows "\<exists>v. item = lookupOwner (Users d) v"
proof -
  from assms(1) obtain matched vs where
    vs: "sortSkipLimit (orderFeed e) (feedSortOptions q) (skipOf q)
               (parseIntOr 10 (limit q)) (map (lookupOwner (Users d)) matched) = Inr vs"
    and r: "page_videos (data r) = vs"
    by (auto simp: getAllVideos_def split: sum.splits)
  have "set vs \<subseteq> lookupOwner (Users d) ` set matched"
    using sortSkipLimit_subset [OF vs] by simp
  then show ?thesis
    using r assms(2) by auto
qed

lemma getVideoById_item:
  assumes "fst (getVideoById e videoId d) = Inr r"
  shows "\<exists>v. data r = lookupOwner (Users d) v"
  using assms by (auto simp: getVideoById_def split: if_splits list.splits)

lemma lookup_public: "lookupOwner (Users db0) publicVideo = feedItem1"
  by (simp add: lookupOwner_def userDoc_def project_def db0_def userAlice_def publicVideo_def
      feedItem1_def)

lemma fetch_video1:
  "fst (getVideoById env0 video1 db0) =
     Inr \<lparr>statusCode = 200, data = feedItem1, message = ''Video fetched successfully!''\<rparr>"
proof -
  have "isValidObjectId env0 video1"
    by (simp add: env0_def video1_def)
  then show ?thesis
    by (simp add: getVideoById_found [OF _ db0_video1] lookup_public)
qed

text \<open>
  C4, as the code has it. Every video item returned by getAllVideos and by getVideoById
  whose owner is a stored user carries an owner sub-object whose fields are exactly _id,
  fullName, username and avatar: the inclusion projection keeps the user's identifier
  next to the three named fields, and no other field of the user. An item whose owner is
  no stored user carries no owner sub-object.
\<close>

theorem owner_projection_fields:
  assumes "getAllVideos e q d = Inr r \<and> item \<in> set (page_videos (data r))
           \<or> fst (getVideoById e videoId d) = Inr r' \<and> item = data r'"
  shows "if v_owner (video_doc item) \<in> u_id ` set (Users d)
         then owner item \<noteq> None
              \<and> set (ownerFields item) = {''_id'', ''fullName'', ''username'', ''avatar''}
              \<and> distinct (ownerFields item)
         else owner item = None"
proof -
  obtain v where item: "item = lookupOwner (Users d) v"
    using assms getAllVideos_items getVideoById_item by blast
  have s: "set [''_id'', ''username'', ''fullName'', ''avatar''] =
      {''_id'', ''fullName'', ''username'', ''avatar''}"
    by (simp add: insert_commute)
  have dd: "distinct [''_id'', ''username'', ''fullName'', ''avatar'']"
    by simp
  show ?thesis
  proof (cases "v_owner v \<in> u_id ` set (Users d)")
    case True
    then have "owner item \<noteq> None"
      and "ownerFields item = [''_id'', ''username'', ''fullName'', ''avatar'']"
      using lookupOwner_fields [of v "Users d"] unfolding item by simp_all
    then show ?thesis
      using True s dd unfolding item lookupOwner_video by metis
  next
    case False
    then have "owner item = None"
      using lookupOwner_fields [of v "Users d"] unfolding item by simp
    then show ?thesis
      using False unfolding item lookupOwner_video by simp
  qed
qed

theorem owner_projection_fields_witness:
  "getAllVideos env0 noQuery db0 =
     Inr \<lparr>statusCode = 200,
          data = \<lparr>page_videos = [feedItem1],
                  pagination = \<lparr>currentPage = 1, totalPages = 1, totalVideos = 1,
                                pg_limit = 10\<rparr>\<rparr>,
          message = ''Videos fetched successfully!''\<rparr>
   \<and> v_owner (video_doc feedItem1) \<in> u_id ` set (Users db0)
   \<and> owner feedItem1 \<noteq> None
   \<and> set (ownerFields feedItem1) = {''_id'', ''fullName'', ''username'', ''avatar''}
   \<and> distinct (ownerFields feedItem1)"
proof -
  have m: "feedItem1 \<in> set [feedItem1]"
    by simp
  have o: "v_owner (video_doc feedItem1) \<in> u_id ` set (Users db0)"
    by (simp add: feedItem1_def publicVideo_def db0_def userAlice_def)
  have "getAllVideos env0 noQuery db0 =
     Inr \<lparr>statusCode = 200,
          data = \<lparr>page_videos = [feedItem1],
                  pagination = \<lparr>currentPage = 1, totalPages = 1, totalVideos = 1,
                                pg_limit = 10\<rparr>\<rparr>,
          message = ''Videos fetched successfully!''\<rparr>
         \<and> feedItem1 \<in> set (page_videos (data
     \<lparr>statusCode = 200,
          data = \<lparr>page_videos = [feedItem1],
                  pagination = \<lparr>currentPage = 1, totalPages = 1, totalVideos = 1,
                                pg_limit = 10\<rparr>\<rparr>,
          message = ''Videos fetched successfully!''\<rparr>))"
    using feed_db0 by simp
  then show ?thesis
    using owner_projection_fields [of env0 noQuery db0 _ feedItem1, OF disjI1] o feed_db0
    by simp
qed

text \<open>
  C4, as it is stated, fails on the example data: the owner sub-object of the returned
  item has the field _id besides fullName, username and avatar, from the feed and from
  the fetch by identifier; and with the owner missing from the users the item has no
  owner sub-object at all.
\<close>

theorem owner_projection_counterexample:
  "getAllVideos env0 noQuery db0 =
     Inr \<lparr>statusCode = 200,
          data = \<lparr>page_videos = [feedItem1],
                  pagination = \<lparr>currentPage = 1, totalPages = 1, totalVideos = 1,
                                pg_limit = 10\<rparr>\<rparr>,
          message = ''Videos fetched successfully!''\<rparr>
   \<and> fst (getVideoById env0 video1 db0) =
       Inr \<lparr>statusCode = 200, data = feedItem1, message = ''Video fetched successfully!''\<rparr>
   \<and> ownerFields feedItem1 = [''_id'', ''username'', ''fullName'', ''avatar'']
   \<and> set (ownerFields feedItem1) \<noteq> {''fullName'', ''username'', ''avatar''}
   \<and> fst (getVideoById env0 video1 dbNoUsers) =
       Inr \<lparr>statusCode = 200, data = \<lparr>video_doc = publicVideo, owner = None\<rparr>,
            message = ''Video fetched successfully!''\<rparr>"
proof -
  have f: "ownerFields feedItem1 = [''_id'', ''username'', ''fullName'', ''avatar'']"
    by (simp add: ownerFields_def feedItem1_def)
  have "''_id'' \<in> set (ownerFields feedItem1)"
    by (simp add: f)
  moreover have "''_id'' \<notin> {''fullName'', ''username'', ''avatar''}"
    by simp
  ultimately have n: "set (ownerFields feedItem1) \<noteq> {''fullName'', ''username'', ''avatar''}"
    by metis
  have v: "isValidObjectId env0 video1"
    by (simp add: env0_def video1_def)
  have g: "findVideoById (Videos dbNoUsers) video1 = Some publicVideo"
    by (simp add: dbNoUsers_def db0_video1)
  have d: "fst (getVideoById env0 video1 dbNoUsers) =
       Inr \<lparr>statusCode = 200, data = \<lparr>video_doc = publicVideo, owner = None\<rparr>,
            message = ''Video fetched successfully!''\<rparr>"
    by (simp add: getVideoById_found [OF v g]) (simp add: dbNoUsers_def lookupOwner_def)
  show ?thesis
    using feed_db0 fetch_video1 f n d by simp
qed

subsection \<open>Ownership of playlists\<close>

text \<open>
  What the five guarded handlers do for a caller who is not the owner: once the request
  has passed the checks that come first, it fails with 403 and the database is unchanged.
\<close>

lemma guarded_handlers_forbidden:
  assumes "isValidObjectId e i" and "user \<noteq> ownerId"
  shows "findVideoById (Videos d) i = Some v \<Longrightarrow> v_owner v = ownerId \<Longrightarrow>
           truthy ttl \<or> truthy dsc \<or> path \<noteq> None \<Longrightarrow>
           updateVideo e user i ttl dsc path d =
             (Inl (ApiError 403 ''You are not authorized to update this video''), d)"
    and "findVideoById (Videos d) i = Some v \<Longrightarrow> v_owner v = ownerId \<Longrightarrow>
           deleteVideo e user i d =
             (Inl (ApiError 403 ''You are not authorized to delete this video''), d)"
    and "findVideoById (Videos d) i = Some v \<Longrightarrow> v_owner v = ownerId \<Longrightarrow>
           togglePublishStatus e user i d =
             (Inl (ApiError 403
                ''You are not authorized to change this video's publish status''), d)"
    and "findPlaylistById (Playlists d) i = Some p \<Longrightarrow> p_owner p = ownerId \<Longrightarrow>
           deletePlaylist e user i d =
             (Inl (ApiError 403 ''You are not authorized to delete this playlist''), d)"
    and "findPlaylistById (Playlists d) i = Some p \<Longrightarrow> p_owner p = ownerId \<Longrightarrow>
           truthy nm \<or> truthy dsc \<Longrightarrow>
           map_option trim nm \<noteq> Some [] \<Longrightarrow> map_option trim dsc \<noteq> Some [] \<Longrightarrow>
           updatePlaylist e user i nm dsc d =
             (Inl (ApiError 403 ''You are not authorized to update this playlist''), d)"
  using assms
  by (auto simp: updateVideo_def deleteVideo_def togglePublishStatus_def deletePlaylist_def
      updatePlaylist_def)

text \<open>
  C1, on the example data. The playlist belongs to alice and the caller is bob:
  addVideoToPlaylist and removeVideoFromPlaylist never read the caller, answer 200 and
  store the changed list, where deletePlaylist and updatePlaylist answer 403 for the same
  caller and playlist.
\<close>

theorem playlist_membership_skips_ownership:
  "findPlaylistById (Playlists db0) playlist1 = Some favorites
   \<and> p_owner favorites = alice \<and> bob \<noteq> alice
   \<and> addVideoToPlaylist env0 playlist1 video2 db0 =
       (Inr \<lparr>statusCode = 200, data = favorites\<lparr>videos := [video1, video2]\<rparr>,
             message = ''Video added to playlist successfully''\<rparr>,
        db0\<lparr>Playlists := [favorites\<lparr>videos := [video1, video2]\<rparr>]\<rparr>)
   \<and> step env0 bob (AddVideoToPlaylist playlist1 video2) db0 =
       db0\<lparr>Playlists := [favorites\<lparr>videos := [video1, video2]\<rparr>]\<rparr>
   \<and> removeVideoFromPlaylist env0 playlist1 video1 db0 =
       (Inr \<lparr>statusCode = 200, data = favorites\<lparr>videos := []\<rparr>,
             message = ''Video removed from playlist successfully''\<rparr>,
        db0\<lparr>Playlists := [favorites\<lparr>videos := []\<rparr>]\<rparr>)
   \<and> step env0 bob (RemoveVideoFromPlaylist playlist1 video1) db0 =
       db0\<lparr>Playlists := [favorites\<lparr>videos := []\<rparr>]\<rparr>
   \<and> deletePlaylist env0 bob playlist1 db0 =
       (Inl (ApiError 403 ''You are not authorized to delete this playlist''), db0)
   \<and> updatePlaylist env0 bob playlist1 (Some ''Mine'') None db0 =
       (Inl (ApiError 403 ''You are not authorized to update this playlist''), db0)"
proof -
  have ids: "isValidObjectId env0 playlist1" "isValidObjectId env0 video1"
    "isValidObjectId env0 video2"
    by (simp_all add: env0_def playlist1_def video1_def video2_def)
  have f: "findPlaylistById (Playlists db0) playlist1 = Some favorites"
    by (simp add: findPlaylistById_def db0_def favorites_def)
  have o: "p_owner favorites = alice" "bob \<noteq> alice" "p_id favorites = playlist1"
    "videos favorites = [video1]" "video2 \<noteq> video1"
    by (simp_all add: favorites_def alice_def bob_def video1_def video2_def)
  have pl: "Playlists db0 = [favorites]"
    by (simp add: db0_def)
  have cast: "castObjectId env0 video2 = video2"
    by (simp add: env0_def video2_def lowerHex_def)
  have a: "addVideoToPlaylist env0 playlist1 video2 db0 =
       (Inr \<lparr>statusCode = 200, data = favorites\<lparr>videos := [video1, video2]\<rparr>,
             message = ''Video added to playlist successfully''\<rparr>,
        db0\<lparr>Playlists := [favorites\<lparr>videos := [video1, video2]\<rparr>]\<rparr>)"
    using ids f o cast by (simp add: addVideoToPlaylist_def pl Let_def)
  have r: "removeVideoFromPlaylist env0 playlist1 video1 db0 =
       (Inr \<lparr>statusCode = 200, data = favorites\<lparr>videos := []\<rparr>,
             message = ''Video removed from playlist successfully''\<rparr>,
        db0\<lparr>Playlists := [favorites\<lparr>videos := []\<rparr>]\<rparr>)"
    using ids f o by (simp add: removeVideoFromPlaylist_def pl Let_def)
  have dl: "deletePlaylist env0 bob playlist1 db0 =
       (Inl (ApiError 403 ''You are not authorized to delete this playlist''), db0)"
    using ids f o by (simp add: deletePlaylist_def)
  have up: "updatePlaylist env0 bob playlist1 (Some ''Mine'') None db0 =
       (Inl (ApiError 403 ''You are not authorized to update this playlist''), db0)"
    using ids f o by (simp add: updatePlaylist_def truthy_def trim_def isWhiteSpace_def)
  show ?thesis
    using f o(1,2) a r dl up by simp
qed

theorem playlist_membership_skips_ownership_witness:
  "p_owner favorites \<noteq> bob
   \<and> map_sum id statusCode (fst (addVideoToPlaylist env0 playlist1 video2 db0)) = Inr 200
   \<and> map_sum id statusCode (fst (removeVideoFromPlaylist env0 playlist1 video1 db0)) = Inr 200
   \<and> map_sum id statusCode (fst (deletePlaylist env0 bob playlist1 db0)) =
       Inl (ApiError 403 ''You are not authorized to delete this playlist'')"
  using playlist_membership_skips_ownership by auto

subsection \<open>Validation of createPlaylist\<close>

text \<open>
  C6, on the example data. With the name absent the check of line 10 does not fire: the
  optional chaining yields undefined, which is not the empty string. The request goes on
  to the database, which stores a playlist without a name, or, when the schema requires
  the field, throws its own validation error; in neither case is the answer the 400 of the
  handler. A name of blanks only is rejected with that 400.
\<close>

theorem createPlaylist_accepts_absent_field:
  "createPlaylist env0 bob None (Some ''x'') blankPlaylist db0 =
     (Inr \<lparr>statusCode = 201,
           data = blankPlaylist\<lparr>name := None, p_description := Some ''x'', p_owner := bob\<rparr>,
           message = ''Playlist created successfully''\<rparr>,
      db0\<lparr>Playlists := [favorites,
             blankPlaylist\<lparr>name := None, p_description := Some ''x'', p_owner := bob\<rparr>]\<rparr>)
   \<and> createPlaylist envRequired bob None (Some ''x'') blankPlaylist db0 =
       (Inl (Thrown ''ValidationError''), db0)
   \<and> createPlaylist env0 bob (Some ''  '') (Some ''x'') blankPlaylist db0 =
       (Inl (ApiError 400 ''All fields are required''), db0)"
proof -
  have pl: "Playlists db0 = [favorites]"
    by (simp add: db0_def)
  have fav: "name favorites = Some ''Favorites''" "p_id favorites = playlist1"
    by (simp_all add: favorites_def)
  have ne: "playlist2 \<noteq> playlist1"
    by (simp add: playlist1_def playlist2_def)
  have b: "p_id blankPlaylist = playlist2"
    by (simp add: blankPlaylist_def)
  have e0: "validatePlaylist env0 = (\<lambda>p. True)"
    by (simp add: env0_def)
  have e1: "validatePlaylist envRequired = (\<lambda>p. name p \<noteq> None \<and> p_description p \<noteq> None)"
    by (simp add: envRequired_def)
  have c1: "createPlaylist env0 bob None (Some ''x'') blankPlaylist db0 =
     (Inr \<lparr>statusCode = 201,
           data = blankPlaylist\<lparr>name := None, p_description := Some ''x'', p_owner := bob\<rparr>,
           message = ''Playlist created successfully''\<rparr>,
      db0\<lparr>Playlists := [favorites,
             blankPlaylist\<lparr>name := None, p_description := Some ''x'', p_owner := bob\<rparr>]\<rparr>)"
    by (simp add: createPlaylist_def createPlaylistDoc_def trim_def isWhiteSpace_def pl fav ne b e0)
  have c2: "createPlaylist envRequired bob None (Some ''x'') blankPlaylist db0 =
       (Inl (Thrown ''ValidationError''), db0)"
    by (simp add: createPlaylist_def createPlaylistDoc_def trim_def isWhiteSpace_def pl fav e1)
  have c3: "createPlaylist env0 bob (Some ''  '') (Some ''x'') blankPlaylist db0 =
       (Inl (ApiError 400 ''All fields are required''), db0)"
    by (simp add: createPlaylist_def trim_def isWhiteSpace_def)
  show ?thesis
    using c1 c2 c3 by simp
qed

theorem createPlaylist_accepts_absent_field_witness:
  "fst (createPlaylist env0 bob None (Some ''x'') blankPlaylist db0) \<noteq>
     Inl (ApiError 400 ''All fields are required'')
   \<and> length (Playlists (snd (createPlaylist env0 bob None (Some ''x'') blankPlaylist db0))) = 2
   \<and> length (Playlists db0) = 1"
  using createPlaylist_accepts_absent_field by (simp add: db0_def)

end
